theory Spec2Isabelle
  imports Complex_Main
begin

section \<open>Numbers and strings of the host language\<close>

text \<open>
  The editor state only ever holds finite numbers (literals, DOM measurements, and sums,
  differences, maxima and minima of those), so it is modelled over \<open>real\<close>, and its sums
  and differences are taken exactly. The arithmetic that places a stamp during saving is
  IEEE binary64 arithmetic: its numbers are \<open>jsnum\<close>, which adds the two infinities and
  NaN to the reals, and each of its operations (\<open>fadd\<close>, \<open>fsub\<close>, \<open>fmul\<close>, \<open>fdiv\<close>) is
  the exact operation followed by rounding to the nearest double. A real that enters
  this arithmetic from the state or from the page stands for the double nearest to it.
  The sign of zero is not modelled: a zero divisor is taken to be +0 (a DOM width or
  height is never negative).
\<close>

datatype jsnum = Num real | PosInf | NegInf | NaN

fun jneg :: "jsnum \<Rightarrow> jsnum" where
  "jneg (Num a) = Num (- a)"
| "jneg PosInf = NegInf"
| "jneg NegInf = PosInf"
| "jneg NaN = NaN"

fun jadd :: "jsnum \<Rightarrow> jsnum \<Rightarrow> jsnum" where
  "jadd NaN _ = NaN"
| "jadd _ NaN = NaN"
| "jadd (Num a) (Num b) = Num (a + b)"
| "jadd (Num a) i = i"
| "jadd i (Num b) = i"
| "jadd PosInf PosInf = PosInf"
| "jadd NegInf NegInf = NegInf"
| "jadd PosInf NegInf = NaN"
| "jadd NegInf PosInf = NaN"

definition jsub :: "jsnum \<Rightarrow> jsnum \<Rightarrow> jsnum" where
  "jsub a b = jadd a (jneg b)"

text \<open>An infinity scaled by a finite factor: NaN for zero, else the sign decides.\<close>

definition inf_times :: "bool \<Rightarrow> real \<Rightarrow> jsnum" where
  "inf_times positive b =
     (if b = 0 then NaN else if (0 < b) = positive then PosInf else NegInf)"

fun jmul :: "jsnum \<Rightarrow> jsnum \<Rightarrow> jsnum" where
  "jmul NaN _ = NaN"
| "jmul _ NaN = NaN"
| "jmul (Num a) (Num b) = Num (a * b)"
| "jmul (Num a) PosInf = inf_times True a"
| "jmul (Num a) NegInf = inf_times False a"
| "jmul PosInf (Num b) = inf_times True b"
| "jmul NegInf (Num b) = inf_times False b"
| "jmul PosInf PosInf = PosInf"
| "jmul NegInf NegInf = PosInf"
| "jmul PosInf NegInf = NegInf"
| "jmul NegInf PosInf = NegInf"

fun jdiv :: "jsnum \<Rightarrow> jsnum \<Rightarrow> jsnum" where
  "jdiv NaN _ = NaN"
| "jdiv _ NaN = NaN"
| "jdiv (Num a) (Num b) =
     (if b \<noteq> 0 then Num (a / b)
      else if a = 0 then NaN else if 0 < a then PosInf else NegInf)"
| "jdiv (Num a) _ = Num 0"
| "jdiv PosInf (Num b) = (if 0 \<le> b then PosInf else NegInf)"
| "jdiv NegInf (Num b) = (if 0 \<le> b then NegInf else PosInf)"
| "jdiv _ _ = NaN"

text \<open>The strict comparison: false whenever an operand is NaN.\<close>

fun jless :: "jsnum \<Rightarrow> jsnum \<Rightarrow> bool" where
  "jless NaN _ = False"
| "jless _ NaN = False"
| "jless (Num a) (Num b) = (a < b)"
| "jless (Num a) PosInf = True"
| "jless (Num a) NegInf = False"
| "jless PosInf _ = False"
| "jless NegInf NegInf = False"
| "jless NegInf _ = True"

text \<open>
  Rounding to binary64, to nearest with ties to even. A positive \<open>a\<close> with
  \<open>2^e \<le> a < 2^(e+1)\<close> is rounded to a multiple of \<open>2^(e-52)\<close>; below \<open>2^-1022\<close> the
  spacing stays \<open>2^-1074\<close> (gradual underflow), and a result of \<open>2^1024\<close> or more is an
  infinity. \<open>exponentOf\<close> finds \<open>e\<close> by halving or doubling; its first argument bounds
  the number of steps, and when it runs out the number is so large or so small that the
  result is an infinity or zero whatever \<open>e\<close> is taken.
\<close>

definition roundHalfEven :: "real \<Rightarrow> int" where
  "roundHalfEven x =
     (let n = \<lfloor>x\<rfloor>; d = x - of_int n
      in if d < 1 / 2 then n else if 1 / 2 < d then n + 1 else if even n then n else n + 1)"

fun exponentOf :: "nat \<Rightarrow> real \<Rightarrow> int" where
  "exponentOf fuel x =
     (if fuel = 0 then 0
      else if 2 \<le> x then exponentOf (fuel - 1) (x / 2) + 1
      else if x < 1 then exponentOf (fuel - 1) (x * 2) - 1
      else 0)"

declare exponentOf.simps [simp del]

definition pow2 :: "int \<Rightarrow> real" where
  "pow2 e = (if 0 \<le> e then 2 ^ nat e else 1 / 2 ^ nat (- e))"

definition toDouble :: "real \<Rightarrow> jsnum" where
  "toDouble x =
     (if x = 0 then Num 0
      else
        let a = \<bar>x\<bar>;
            e = max (exponentOf 2200 a) (- 1022);
            q = pow2 (e - 52);
            r = of_int (roundHalfEven (a / q)) * q
        in if pow2 1024 \<le> r then (if 0 < x then PosInf else NegInf)
           else Num (if 0 < x then r else - r))"

fun rnd :: "jsnum \<Rightarrow> jsnum" where
  "rnd (Num x) = toDouble x"
| "rnd PosInf = PosInf"
| "rnd NegInf = NegInf"
| "rnd NaN = NaN"

definition fadd :: "jsnum \<Rightarrow> jsnum \<Rightarrow> jsnum" where
  "fadd a b = rnd (jadd a b)"

definition fsub :: "jsnum \<Rightarrow> jsnum \<Rightarrow> jsnum" where
  "fsub a b = rnd (jsub a b)"

definition fmul :: "jsnum \<Rightarrow> jsnum \<Rightarrow> jsnum" where
  "fmul a b = rnd (jmul a b)"

definition fdiv :: "jsnum \<Rightarrow> jsnum \<Rightarrow> jsnum" where
  "fdiv a b = rnd (jdiv a b)"

text \<open>
  Strings are lists of 8-bit characters. \<open>String.prototype.trim\<close> strips white space and
  line terminators from both ends; of those, the code points below 256 are listed here.
\<close>

definition isWhiteSpace :: "char \<Rightarrow> bool" where
  "isWhiteSpace c = ((of_char c :: nat) \<in> set [9, 10, 11, 12, 13, 32, 160])"

definition trim :: "string \<Rightarrow> string" where
  "trim s = rev (dropWhile isWhiteSpace (rev (dropWhile isWhiteSpace s)))"

text \<open>\<open>Number.prototype.toString\<close> on a non-negative integer: its decimal digits.\<close>

fun toString :: "nat \<Rightarrow> string" where
  "toString n =
     (if n < 10 then [''0123456789'' ! n]
      else toString (n div 10) @ [''0123456789'' ! (n mod 10)])"

declare toString.simps [simp del]

section \<open>Data model\<close>

text \<open>\<open>interface Signature\<close> (SignatureEditor.tsx, lines 14-23).\<close>

record Signature =
  sig_id :: string
  sig_text :: string
  sig_font :: string
  sig_fontSize :: real
  sig_color :: string
  sig_x :: real
  sig_y :: real
  sig_page :: int




text \<open>The component's state hooks (lines 50-59) as one record.\<close>

record editor_state =
  signatures :: "Signature list"
  selectedSignature :: "Signature option"
  isDragging :: bool
  dragOffset :: "real \<times> real"
  signatureText :: string
  selectedFont :: string
  selectedColor :: string
  fontSize :: real
  selectedPage :: int

text \<open>
  What the handlers read from the browser: the pointer position of a mouse event, the
  touch list of a touch event (a touch has the same two coordinates as a mouse event),
  and the bounding rectangle of the overlay container (\<open>None\<close> when
  \<open>pdfContainerRef.current\<close> is null).
\<close>

record MouseEvent =
  clientX :: real
  clientY :: real

record DOMRect =
  rect_left :: real
  rect_top :: real
  rect_width :: real
  rect_height :: real

datatype exn =
    TypeError
  | SourceFetchFailed
  | CorruptSourceDocument
  | PageOutOfRange int
  | FontFetchFailed string
  | FontEmbedFailed string
  | ColorRejected
  | DrawTextRejected

section \<open>Annotation store\<close>

text \<open>\<open>addSignature\<close>; \<open>now\<close> is the value of \<open>Date.now()\<close>.\<close>

definition addSignature :: "nat \<Rightarrow> editor_state \<Rightarrow> editor_state" where
  "addSignature now st =
     (if trim (signatureText st) = [] then st
      else
        let newSignature =
              \<lparr>sig_id = toString now,
               sig_text = signatureText st,
               sig_font = selectedFont st,
               sig_fontSize = fontSize st,
               sig_color = selectedColor st,
               sig_x = 100,
               sig_y = 100,
               sig_page = selectedPage st\<rparr>
        in st\<lparr>signatures := signatures st @ [newSignature], signatureText := []\<rparr>)"

definition selectedHasId :: "editor_state \<Rightarrow> string \<Rightarrow> bool" where
  "selectedHasId st i =
     (case selectedSignature st of None \<Rightarrow> False | Some sel \<Rightarrow> sig_id sel = i)"

definition removeSignature :: "string \<Rightarrow> editor_state \<Rightarrow> editor_state" where
  "removeSignature i st =
     (let st1 = st\<lparr>signatures := filter (\<lambda>s. sig_id s \<noteq> i) (signatures st)\<rparr>
      in if selectedHasId st i then st1\<lparr>selectedSignature := None\<rparr> else st1)"


section \<open>Dragging\<close>

definition handleMouseDown ::
  "MouseEvent \<Rightarrow> Signature \<Rightarrow> DOMRect option \<Rightarrow> editor_state \<Rightarrow> editor_state" where
  "handleMouseDown e signature rect st =
     (let st1 = st\<lparr>selectedSignature := Some signature, isDragging := True\<rparr>
      in case rect of
           None \<Rightarrow> st1
         | Some r \<Rightarrow>
             st1\<lparr>dragOffset := (clientX e - rect_left r - sig_x signature,
                                clientY e - rect_top r - sig_y signature)\<rparr>)"



definition handleMouseUp :: "editor_state \<Rightarrow> editor_state" where
  "handleMouseUp st = st\<lparr>isDragging := False\<rparr>"

text \<open>
  The touch handlers of the second copy of the component (part_003, lines 137-165). A touch
  event carries a list of touches; reading \<open>touches[0].clientX\<close> of an empty list throws.
\<close>

definition handleTouchStart ::
  "MouseEvent list \<Rightarrow> Signature \<Rightarrow> DOMRect option \<Rightarrow> editor_state \<Rightarrow> exn + editor_state" where
  "handleTouchStart touches signature rect st =
     (let st1 = st\<lparr>selectedSignature := Some signature, isDragging := True\<rparr>
      in case rect of
           None \<Rightarrow> Inr st1
         | Some r \<Rightarrow>
             (case touches of
                [] \<Rightarrow> Inl TypeError
              | touch # _ \<Rightarrow>
                  Inr (st1\<lparr>dragOffset := (clientX touch - rect_left r - sig_x signature,
                                          clientY touch - rect_top r - sig_y signature)\<rparr>)))"


definition handleTouchEnd :: "editor_state \<Rightarrow> editor_state" where
  "handleTouchEnd st = st\<lparr>isDragging := False\<rparr>"

section \<open>Colour conversion\<close>

text \<open>
  \<open>hexToRgb\<close> (SignatureEditor.tsx, lines 152-157; part_003, lines 188-193). Each channel
  is a single quotient \<open>n / 255\<close>; it is written as the exact fraction, which stands for
  the double nearest to it.
  \<^verbatim>\<open>
  const match = hex.replace('#', '').match(/.{1,2}/g)
  if (!match) return { r: 0, g: 0, b: 0 }
  const [r, g, b] = match.map((x: string) => parseInt(x, 16) / 255)
  return { r, g, b }
  \<close>
  A string pattern given to \<open>replace\<close> replaces the first occurrence only.
\<close>

fun replaceFirstHash :: "string \<Rightarrow> string" where
  "replaceFirstHash [] = []"
| "replaceFirstHash (c # cs) = (if c = CHR ''#'' then cs else c # replaceFirstHash cs)"

text \<open>
  The pattern \<open>/.{1,2}/g\<close>: the dot matches every character but a line terminator, the
  quantifier is greedy, and the search resumes after each match (one position further
  where nothing matches). \<open>match\<close> returns null when there is no match at all.
\<close>

definition isLineTerminator :: "char \<Rightarrow> bool" where
  "isLineTerminator c = (c = CHR 0x0A \<or> c = CHR 0x0D)"

fun groups12 :: "string \<Rightarrow> string list" where
  "groups12 [] = []"
| "groups12 [c] = (if isLineTerminator c then [] else [[c]])"
| "groups12 (c # d # cs) =
     (if isLineTerminator c then groups12 (d # cs)
      else if isLineTerminator d then [c] # groups12 (d # cs)
      else [c, d] # groups12 cs)"

definition match12 :: "string \<Rightarrow> string list option" where
  "match12 s = (case groups12 s of [] \<Rightarrow> None | g # gs \<Rightarrow> Some (g # gs))"

definition hexDigitVal :: "char \<Rightarrow> nat option" where
  "hexDigitVal = map_of
     [(CHR ''0'', 0), (CHR ''1'', 1), (CHR ''2'', 2), (CHR ''3'', 3), (CHR ''4'', 4),
      (CHR ''5'', 5), (CHR ''6'', 6), (CHR ''7'', 7), (CHR ''8'', 8), (CHR ''9'', 9),
      (CHR ''a'', 10), (CHR ''b'', 11), (CHR ''c'', 12), (CHR ''d'', 13), (CHR ''e'', 14),
      (CHR ''f'', 15),
      (CHR ''A'', 10), (CHR ''B'', 11), (CHR ''C'', 12), (CHR ''D'', 13), (CHR ''E'', 14),
      (CHR ''F'', 15)]"

definition isHexDigit :: "char \<Rightarrow> bool" where
  "isHexDigit c = (hexDigitVal c \<noteq> None)"

definition hexValue :: "string \<Rightarrow> nat" where
  "hexValue ds = foldl (\<lambda>acc c. 16 * acc + the (hexDigitVal c)) 0 ds"

text \<open>
  \<open>parseInt(x, 16)\<close>: skip leading white space, read an optional sign, skip an optional
  \<open>0x\<close> or \<open>0X\<close>, then read hexadecimal digits for as long as there are any; NaN when
  there is none.
\<close>

definition parseInt16 :: "string \<Rightarrow> jsnum" where
  "parseInt16 x =
     (let s1 = dropWhile isWhiteSpace x;
          negative = (case s1 of [] \<Rightarrow> False | c # _ \<Rightarrow> c = CHR ''-'');
          s2 = (case s1 of [] \<Rightarrow> s1
                | c # r \<Rightarrow> if c = CHR ''+'' \<or> c = CHR ''-'' then r else s1);
          s3 = (case s2 of
                  a # b # r \<Rightarrow>
                    if a = CHR ''0'' \<and> (b = CHR ''x'' \<or> b = CHR ''X'') then r else s2
                | _ \<Rightarrow> s2);
          ds = takeWhile isHexDigit s3
      in if ds = [] then NaN
         else Num (if negative then - real (hexValue ds) else real (hexValue ds)))"

text \<open>Array destructuring: a position beyond the end of the array gives \<open>undefined\<close>.\<close>

definition element :: "'a list \<Rightarrow> nat \<Rightarrow> 'a option" where
  "element xs i = (if i < length xs then Some (xs ! i) else None)"

definition hexToRgb :: "string \<Rightarrow> jsnum option \<times> jsnum option \<times> jsnum option" where
  "hexToRgb hex =
     (case match12 (replaceFirstHash hex) of
        None \<Rightarrow> (Some (Num 0), Some (Num 0), Some (Num 0))
      | Some m \<Rightarrow>
          let channels = map (\<lambda>x. jdiv (parseInt16 x) (Num 255)) m
          in (element channels 0, element channels 1, element channels 2))"

section \<open>The document library\<close>

text \<open>
  The document is handled through a library that is not part of the repository. Its
  objects are modelled by what the code reads and writes: a page has a size and a list
  of text operations drawn on it, a document has pages and embedded fonts. What the
  specification says of the library's operations is modelled from it; what it leaves
  open (which bytes parse as a document or as a font, which channels \<open>rgb\<close> accepts,
  which operations \<open>drawText\<close> accepts) is a parameter of the world below. Serialising
  the document is kept abstract, the saved bytes being the document itself.
\<close>

type_synonym bytes = "nat list"

datatype PDFFont = Helvetica | CustomFont bytes

record DrawTextOp =
  op_text :: string
  op_x :: jsnum
  op_y :: jsnum
  op_size :: jsnum
  op_color :: "jsnum option \<times> jsnum option \<times> jsnum option"
  op_font :: PDFFont

record PDFPage =
  page_width :: real
  page_height :: real
  page_content :: "DrawTextOp list"

record PDFDocument =
  pages :: "PDFPage list"
  fonts :: "PDFFont list"

text \<open>
  Modelled from the spec: \<open>getPage\<close>, the library's page lookup by zero-based index.
  "Look up the target page's native dimensions; fail with PageOutOfRange if the
  annotation's page index exceeds the parsed page count." An index below zero names no
  page either.
\<close>

definition getPage :: "PDFDocument \<Rightarrow> int \<Rightarrow> exn + PDFPage" where
  "getPage pdfDoc index =
     (if 0 \<le> index \<and> index \<le> int (length (pages pdfDoc)) - 1
      then Inr (pages pdfDoc ! nat index)
      else Inl (PageOutOfRange index))"

text \<open>
  Modelled from the spec: \<open>embedFont\<close>, the library's registration of a font. "Register
  the returned font program with the document model"; the standard font is registered
  once, before the loop.
\<close>

definition embedFont :: "PDFDocument \<Rightarrow> PDFFont \<Rightarrow> PDFDocument" where
  "embedFont pdfDoc f = pdfDoc\<lparr>fonts := fonts pdfDoc @ [f]\<rparr>"

text \<open>
  Modelled from the spec: \<open>drawText\<close>, the library's drawing of text on a page. "Append
  a text-draw operation to the page's content stream at the computed position, size,
  color, font."
\<close>

definition drawText :: "PDFDocument \<Rightarrow> int \<Rightarrow> DrawTextOp \<Rightarrow> PDFDocument" where
  "drawText pdfDoc index operation =
     pdfDoc\<lparr>pages := (pages pdfDoc)
        [nat index := (pages pdfDoc ! nat index)
           \<lparr>page_content := page_content (pages pdfDoc ! nat index) @ [operation]\<rparr>]\<rparr>"

section \<open>Saving\<close>

text \<open>The \<open>Document\<close> row (part_005).\<close>

datatype doc_status = unsigned | signed

record Document =
  doc_id :: string
  user_id :: string
  doc_name :: string
  original_url :: string
  signed_url :: "string option"
  status :: doc_status
  created_at :: string
  updated_at :: string

text \<open>
  Everything outside the component that \<open>handleSave\<close> talks to: \<open>fetch\<close> (\<open>None\<close> when the
  request or the reading of its body rejects), the library's document parser and font
  parser (\<open>None\<close> and \<open>False\<close> when they throw), whether the library's \<open>rgb\<close> accepts
  three channels and its \<open>drawText\<close> an operation (each throws when it does not), the
  overlay container's rectangle, and the storage and database client, whose calls
  answer with an optional error message.
\<close>

record world =
  fetch :: "string \<Rightarrow> bytes option"
  PDFDocument_load :: "bytes \<Rightarrow> PDFDocument option"
  fontParses :: "bytes \<Rightarrow> bool"
  colorAccepted :: "jsnum option \<Rightarrow> jsnum option \<Rightarrow> jsnum option \<Rightarrow> bool"
  drawTextAccepts :: "DrawTextOp \<Rightarrow> bool"
  containerRect :: "DOMRect option"
  storage_upload :: "string \<Rightarrow> PDFDocument \<Rightarrow> string option"
  storage_getPublicUrl :: "string \<Rightarrow> string"
  documents_update :: "string \<Rightarrow> string \<Rightarrow> doc_status \<Rightarrow> string option"

text \<open>\<open>FONT_FILE_MAP\<close> (lines 40-47); the two entries set to \<open>undefined\<close> are absent.\<close>

definition FONT_FILE_MAP :: "string \<Rightarrow> string option" where
  "FONT_FILE_MAP = map_of
     [(''Great Vibes, cursive'', ''/fonts/GreatVibes-Regular.ttf''),
      (''Pacifico, cursive'', ''/fonts/Pacifico-Regular.ttf''),
      (''Satisfy, cursive'', ''/fonts/Satisfy-Regular.ttf''),
      (''Brush Script MT, cursive'', ''/fonts/BrushScriptMT.ttf'')]"

text \<open>
  The repository holds two copies of the component whose \<open>handleSave\<close> differ in the
  vertical placement and in the size of the drawn text: SignatureEditor.tsx
  (\<open>Editor\<close>) and part_003 (\<open>Part003\<close>).
\<close>

datatype variant = Editor | Part003

definition yOffset :: real where
  "yOffset = 110"

definition scaleX :: "real \<Rightarrow> real \<Rightarrow> jsnum" where
  "scaleX pageWidth overlayWidth = fdiv (toDouble pageWidth) (toDouble overlayWidth)"

definition scaleY :: "real \<Rightarrow> real \<Rightarrow> jsnum" where
  "scaleY pageHeight overlayHeight = fdiv (toDouble pageHeight) (toDouble overlayHeight)"

definition scaledX :: "Signature \<Rightarrow> real \<Rightarrow> real \<Rightarrow> jsnum" where
  "scaledX s pageWidth overlayWidth =
     fmul (toDouble (sig_x s)) (scaleX pageWidth overlayWidth)"

definition scaledY :: "variant \<Rightarrow> Signature \<Rightarrow> real \<Rightarrow> real \<Rightarrow> jsnum" where
  "scaledY v s pageHeight overlayHeight =
     (case v of
        Editor \<Rightarrow>
          fadd (fsub (fsub (toDouble pageHeight)
                           (fmul (toDouble (sig_y s)) (scaleY pageHeight overlayHeight)))
                     (fdiv (toDouble (sig_fontSize s)) (Num 2)))
               (Num yOffset)
      | Part003 \<Rightarrow>
          fsub (fsub (toDouble pageHeight)
                     (fmul (toDouble (sig_y s)) (scaleY pageHeight overlayHeight)))
               (fmul (toDouble (sig_fontSize s)) (scaleY pageHeight overlayHeight)))"

definition textSize :: "variant \<Rightarrow> Signature \<Rightarrow> real \<Rightarrow> real \<Rightarrow> jsnum" where
  "textSize v s pageHeight overlayHeight =
     (case v of
        Editor \<Rightarrow> toDouble (sig_fontSize s)
      | Part003 \<Rightarrow> fmul (toDouble (sig_fontSize s)) (scaleY pageHeight overlayHeight))"

text \<open>
  The font of one signature: the standard font unless \<open>FONT_FILE_MAP\<close> names a file, which
  is then fetched and embedded; either step may throw.
\<close>

definition signatureFont :: "world \<Rightarrow> Signature \<Rightarrow> PDFDocument \<Rightarrow> exn + (PDFFont \<times> PDFDocument)" where
  "signatureFont w s pdfDoc =
     (case FONT_FILE_MAP (sig_font s) of
        None \<Rightarrow> Inr (Helvetica, pdfDoc)
      | Some fontUrl \<Rightarrow>
          (case fetch w fontUrl of
             None \<Rightarrow> Inl (FontFetchFailed fontUrl)
           | Some fontBytes \<Rightarrow>
               if fontParses w fontBytes
               then Inr (CustomFont fontBytes, embedFont pdfDoc (CustomFont fontBytes))
               else Inl (FontEmbedFailed fontUrl)))"

definition rgb ::
  "world \<Rightarrow> jsnum option \<Rightarrow> jsnum option \<Rightarrow> jsnum option
     \<Rightarrow> exn + (jsnum option \<times> jsnum option \<times> jsnum option)" where
  "rgb w r g b = (if colorAccepted w r g b then Inr (r, g, b) else Inl ColorRejected)"

text \<open>The body of the loop over the signatures.\<close>

definition embedSignature ::
  "variant \<Rightarrow> world \<Rightarrow> real \<Rightarrow> real \<Rightarrow> Signature \<Rightarrow> PDFDocument \<Rightarrow> exn + PDFDocument" where
  "embedSignature v w overlayWidth overlayHeight s pdfDoc =
     (case getPage pdfDoc (sig_page s - 1) of
        Inl e \<Rightarrow> Inl e
      | Inr page \<Rightarrow>
          let pageHeight = page_height page;
              pageWidth = page_width page;
              (r, g, b) = hexToRgb (sig_color s)
          in case signatureFont w s pdfDoc of
               Inl e \<Rightarrow> Inl e
             | Inr (pdfFont, pdfDoc1) \<Rightarrow>
                 (case rgb w r g b of
                    Inl e \<Rightarrow> Inl e
                  | Inr c \<Rightarrow>
                      let operation =
                            \<lparr>op_text = sig_text s,
                             op_x = scaledX s pageWidth overlayWidth,
                             op_y = scaledY v s pageHeight overlayHeight,
                             op_size = textSize v s pageHeight overlayHeight,
                             op_color = c,
                             op_font = pdfFont\<rparr>
                      in if drawTextAccepts w operation
                         then Inr (drawText pdfDoc1 (sig_page s - 1) operation)
                         else Inl DrawTextRejected))"

fun embedSignatures ::
  "variant \<Rightarrow> world \<Rightarrow> real \<Rightarrow> real \<Rightarrow> Signature list \<Rightarrow> PDFDocument \<Rightarrow> exn + PDFDocument" where
  "embedSignatures v w overlayWidth overlayHeight [] pdfDoc = Inr pdfDoc"
| "embedSignatures v w overlayWidth overlayHeight (s # ss) pdfDoc =
     (case embedSignature v w overlayWidth overlayHeight s pdfDoc of
        Inl e \<Rightarrow> Inl e
      | Inr pdfDoc1 \<Rightarrow> embedSignatures v w overlayWidth overlayHeight ss pdfDoc1)"

text \<open>The overlay size: that of the container, or 500 by 600 without one.\<close>

definition overlaySize :: "world \<Rightarrow> real \<times> real" where
  "overlaySize w =
     (case containerRect w of None \<Rightarrow> (500, 600) | Some rect \<Rightarrow> (rect_width rect, rect_height rect))"

text \<open>The \<open>try\<close> block up to \<open>pdfDoc.save()\<close>: the document to upload, or what was thrown.\<close>

definition signedPdf :: "variant \<Rightarrow> world \<Rightarrow> Document \<Rightarrow> editor_state \<Rightarrow> exn + PDFDocument" where
  "signedPdf v w document st =
     (case fetch w (original_url document) of
        None \<Rightarrow> Inl SourceFetchFailed
      | Some existingPdfBytes \<Rightarrow>
          (case PDFDocument_load w existingPdfBytes of
             None \<Rightarrow> Inl CorruptSourceDocument
           | Some pdfDoc \<Rightarrow>
               embedSignatures v w (fst (overlaySize w)) (snd (overlaySize w)) (signatures st)
                 (embedFont pdfDoc Helvetica)))"

text \<open>
  What \<open>handleSave\<close> does to the outside, in order: alerts, the error it logs, the upload
  to storage, the update of the document row, and the \<open>onSave\<close> callback.
\<close>

datatype event =
    Alert string
  | ConsoleError exn
  | Upload string PDFDocument
  | UpdateRecord string string doc_status
  | OnSave

definition handleSave :: "variant \<Rightarrow> world \<Rightarrow> Document \<Rightarrow> editor_state \<Rightarrow> event list" where
  "handleSave v w document st =
     (if signatures st = [] then [Alert ''Please add at least one signature'']
      else
        case signedPdf v w document st of
          Inl error \<Rightarrow> [ConsoleError error, Alert ''Failed to save signatures'']
        | Inr pdfBytes \<Rightarrow>
            let fileName = ''signed-'' @ doc_id document @ ''.pdf'';
                filePath = user_id document @ ''/'' @ fileName
            in case storage_upload w filePath pdfBytes of
                 Some message \<Rightarrow>
                   [Upload filePath pdfBytes,
                    Alert (''Failed to upload signed PDF: '' @ message)]
               | None \<Rightarrow>
                   let signedUrl = storage_getPublicUrl w filePath
                   in case documents_update w (doc_id document) signedUrl signed of
                        Some message \<Rightarrow>
                          [Upload filePath pdfBytes,
                           UpdateRecord (doc_id document) signedUrl signed,
                           Alert (''Failed to update document record: '' @ message)]
                      | None \<Rightarrow>
                          [Upload filePath pdfBytes,
                           UpdateRecord (doc_id document) signedUrl signed,
                           Alert ''Document signed and uploaded successfully!'',
                           OnSave])"

text \<open>Recognises the update of the document row among the events.\<close>

fun isUpdateRecord :: "event \<Rightarrow> bool" where
  "isUpdateRecord (UpdateRecord _ _ _) = True"
| "isUpdateRecord _ = False"

section \<open>Example inputs\<close>

text \<open>
  The scenario of the specification: the stamp "Jane Doe", size 24, at (100, 100) on
  page 1, an overlay of 500 by 600 and pages of 612 by 792.
\<close>

definition janeDoe :: Signature where
  "janeDoe =
     \<lparr>sig_id = ''1751200000000'', sig_text = ''Jane Doe'', sig_font = ''Great Vibes, cursive'',
      sig_fontSize = 24, sig_color = ''#1e40af'', sig_x = 100, sig_y = 100, sig_page = 1\<rparr>"

definition editing :: "Signature list \<Rightarrow> editor_state" where
  "editing sigs =
     \<lparr>signatures = sigs, selectedSignature = None, isDragging = False, dragOffset = (0, 0),
      signatureText = ''J. Doe'', selectedFont = ''Great Vibes, cursive'',
      selectedColor = ''#1e40af'', fontSize = 24, selectedPage = 1\<rparr>"





definition letterPage :: PDFPage where
  "letterPage = \<lparr>page_width = 612, page_height = 792, page_content = []\<rparr>"

definition threePages :: PDFDocument where
  "threePages = \<lparr>pages = [letterPage, letterPage, letterPage], fonts = []\<rparr>"

definition sourceBytes :: bytes where
  "sourceBytes = [37, 80, 68, 70]"

definition greatVibesBytes :: bytes where
  "greatVibesBytes = [0, 1, 0, 0]"

definition contract :: Document where
  "contract =
     \<lparr>doc_id = ''d1'', user_id = ''u1'', doc_name = ''contract.pdf'',
      original_url = ''https://files.example/u1/contract.pdf'', signed_url = None,
      status = unsigned, created_at = ''2025-06-29'', updated_at = ''2025-06-29''\<rparr>"

text \<open>A channel that is a number neither below 0 nor above 1; NaN is not a number.\<close>

definition inUnitRange :: "jsnum option \<Rightarrow> bool" where
  "inUnitRange v = (case v of Some (Num c) \<Rightarrow> 0 \<le> c \<and> c \<le> 1 | _ \<Rightarrow> False)"

text \<open>An operation whose position and size are numbers (possibly infinite), not NaN.\<close>

definition numericPlacement :: "DrawTextOp \<Rightarrow> bool" where
  "numericPlacement operation =
     (op_x operation \<noteq> NaN \<and> op_y operation \<noteq> NaN \<and> op_size operation \<noteq> NaN)"

text \<open>
  A world in which every request succeeds and the overlay measures 500 by 600. Its
  \<open>rgb\<close> accepts three channels of the kind above, its \<open>drawText\<close> an operation of the
  kind above.
\<close>

definition okWorld :: world where
  "okWorld =
     \<lparr>fetch = (\<lambda>url. if url = ''https://files.example/u1/contract.pdf'' then Some sourceBytes
                      else if url = ''/fonts/GreatVibes-Regular.ttf'' then Some greatVibesBytes
                      else None),
      PDFDocument_load = (\<lambda>b. if b = sourceBytes then Some threePages else None),
      fontParses = (\<lambda>b. b = greatVibesBytes),
      colorAccepted = (\<lambda>r g b. inUnitRange r \<and> inUnitRange g \<and> inUnitRange b),
      drawTextAccepts = numericPlacement,
      containerRect = Some \<lparr>rect_left = 0, rect_top = 0, rect_width = 500, rect_height = 600\<rparr>,
      storage_upload = (\<lambda>path blob. None),
      storage_getPublicUrl = (\<lambda>path. ''https://files.example/'' @ path),
      documents_update = (\<lambda>i url st. None)\<rparr>"

text \<open>
  The scenario's text operation at a given place and size, and the document expected
  after saving the scenario with the stamp drawn there.
\<close>

definition stampOp :: "jsnum \<Rightarrow> jsnum \<Rightarrow> jsnum \<Rightarrow> DrawTextOp" where
  "stampOp px py sz =
     \<lparr>op_text = ''Jane Doe'', op_x = px, op_y = py, op_size = sz,
      op_color = (Some (Num (30 / 255)), Some (Num (64 / 255)), Some (Num (175 / 255))),
      op_font = CustomFont greatVibesBytes\<rparr>"

definition stamped :: "jsnum \<Rightarrow> jsnum \<Rightarrow> jsnum \<Rightarrow> PDFDocument" where
  "stamped px py sz =
     \<lparr>pages = [letterPage\<lparr>page_content := [stampOp px py sz]\<rparr>, letterPage, letterPage],
      fonts = [Helvetica, CustomFont greatVibesBytes]\<rparr>"

text \<open>The same world with an overlay container of width zero.\<close>

definition collapsedWorld :: world where
  "collapsedWorld = okWorld
     \<lparr>containerRect :=
        Some \<lparr>rect_left = 0, rect_top = 0, rect_width = 0, rect_height = 600\<rparr>\<rparr>"

text \<open>A world in which the font files cannot be fetched, and one whose storage refuses.\<close>

definition fontlessWorld :: world where
  "fontlessWorld = okWorld
     \<lparr>fetch := (\<lambda>url. if url = ''https://files.example/u1/contract.pdf'' then Some sourceBytes
                        else None)\<rparr>"

definition fullStorageWorld :: world where
  "fullStorageWorld = okWorld\<lparr>storage_upload := (\<lambda>path blob. Some ''quota exceeded'')\<rparr>"

definition plainStamp :: Signature where
  "plainStamp = janeDoe\<lparr>sig_id := ''1751200000007'', sig_font := ''Arial, sans-serif''\<rparr>"

definition pageFive :: Signature where
  "pageFive = janeDoe\<lparr>sig_id := ''1751200000009'', sig_page := 5\<rparr>"

text \<open>The signature of the scenario dragged to the left edge of the overlay.\<close>

definition leftEdge :: Signature where
  "leftEdge = janeDoe\<lparr>sig_id := ''1751200000011'', sig_x := 0\<rparr>"

section \<open>Adding and removing a signature\<close>

lemma filter_absent: "i \<notin> sig_id ` set xs \<Longrightarrow> filter (\<lambda>s. sig_id s \<noteq> i) xs = xs"
  by (induction xs) auto

lemma signatures_removeSignature:
  "signatures (removeSignature i st) = filter (\<lambda>s. sig_id s \<noteq> i) (signatures st)"
  by (simp add: removeSignature_def Let_def)

lemma toString_numeral:
  "toString (numeral k) =
     (if (numeral k :: nat) < 10 then [''0123456789'' ! numeral k]
      else toString (numeral k div 10) @ [''0123456789'' ! (numeral k mod 10)])"
  by (rule toString.simps)

lemma toString_digit: "n < 10 \<Longrightarrow> toString n = [''0123456789'' ! n]"
  by (subst toString.simps) simp

lemma toString_example: "toString 1751200000001 = ''1751200000001''"
  by (simp add: toString_numeral toString_digit)

text \<open>
  Claim C7. Whatever the state of the editor, if the id generated for a new signature
  (the decimal form of the clock value) is not the id of a signature already in the list,
  then adding the signature and removing it again by that id gives back the list of
  signatures as it was. This covers the add that does nothing because the text is blank:
  the removal then finds nothing to remove.
\<close>

theorem add_then_remove_restores_signatures:
  "toString now \<notin> sig_id ` set (signatures st) \<Longrightarrow>
   signatures (removeSignature (toString now) (addSignature now st)) = signatures st"
  by (simp add: signatures_removeSignature addSignature_def Let_def filter_absent)

theorem add_then_remove_restores_signatures_witness:
  "toString 1751200000001 \<notin> sig_id ` set (signatures (editing [janeDoe])) \<and>
   signatures (addSignature 1751200000001 (editing [janeDoe])) \<noteq> signatures (editing [janeDoe]) \<and>
   signatures (removeSignature (toString 1751200000001)
                 (addSignature 1751200000001 (editing [janeDoe])))
     = signatures (editing [janeDoe])"
proof -
  have fresh: "toString 1751200000001 \<notin> sig_id ` set (signatures (editing [janeDoe]))"
    by (simp add: toString_example editing_def janeDoe_def)
  have added: "signatures (addSignature 1751200000001 (editing [janeDoe]))
                 \<noteq> signatures (editing [janeDoe])"
    by (simp add: addSignature_def editing_def trim_def isWhiteSpace_def Let_def)
  from fresh added add_then_remove_restores_signatures [OF fresh] show ?thesis
    by simp
qed

section \<open>Dragging a signature\<close>












section \<open>Properties of the colour conversion\<close>

lemma isHexDigit_cases:
  "isHexDigit c \<Longrightarrow> c \<in> set ''0123456789abcdefABCDEF''"
  unfolding isHexDigit_def hexDigitVal_def
  by (auto simp: map_of_eq_None_iff split: if_splits)

lemma hexDigit_plain:
  assumes "isHexDigit c"
  shows "\<not> isWhiteSpace c" "\<not> isLineTerminator c" "c \<noteq> CHR ''#''" "c \<noteq> CHR ''+''"
    "c \<noteq> CHR ''-''" "c \<noteq> CHR ''x''" "c \<noteq> CHR ''X''"
  using isHexDigit_cases [OF assms]
  by (auto simp: isWhiteSpace_def isLineTerminator_def)

lemma hexDigitVal_bound: "hexDigitVal c = Some v \<Longrightarrow> v \<le> 15"
  unfolding hexDigitVal_def by (auto split: if_splits)

lemma hexValue_pair: "hexValue [a, b] = 16 * the (hexDigitVal a) + the (hexDigitVal b)"
  by (simp add: hexValue_def)

lemma hexValue_pair_bound:
  assumes "isHexDigit a" "isHexDigit b"
  shows "hexValue [a, b] \<le> 255"
proof -
  from assms obtain va vb where "hexDigitVal a = Some va" "hexDigitVal b = Some vb"
    by (auto simp: isHexDigit_def)
  moreover from this have "va \<le> 15" "vb \<le> 15"
    by (auto dest: hexDigitVal_bound)
  ultimately show ?thesis by (simp add: hexValue_pair)
qed

lemma parseInt16_pair:
  assumes "isHexDigit a" "isHexDigit b"
  shows "parseInt16 [a, b] = Num (real (hexValue [a, b]))"
  using assms hexDigit_plain [OF assms(1)] hexDigit_plain [OF assms(2)]
  by (simp add: parseInt16_def Let_def)

lemma channel_pair:
  assumes "isHexDigit a" "isHexDigit b"
  shows "jdiv (parseInt16 [a, b]) (Num 255) = Num (real (hexValue [a, b]) / 255)"
  by (simp add: parseInt16_pair [OF assms])

lemma match12_six:
  assumes "isHexDigit a" "isHexDigit b" "isHexDigit c" "isHexDigit d" "isHexDigit e" "isHexDigit f"
  shows "match12 [a, b, c, d, e, f] = Some [[a, b], [c, d], [e, f]]"
  using assms by (simp add: match12_def hexDigit_plain)

lemma hexToRgb_six:
  assumes "isHexDigit a" "isHexDigit b" "isHexDigit c" "isHexDigit d" "isHexDigit e" "isHexDigit f"
  shows "hexToRgb (CHR ''#'' # [a, b, c, d, e, f]) =
           (Some (Num (real (hexValue [a, b]) / 255)),
            Some (Num (real (hexValue [c, d]) / 255)),
            Some (Num (real (hexValue [e, f]) / 255)))"
  using assms by (simp add: hexToRgb_def match12_six channel_pair element_def Let_def)

lemma groups12_empty_iff: "groups12 s = [] \<longleftrightarrow> (\<forall>c \<in> set s. isLineTerminator c)"
  by (induction s rule: groups12.induct) auto

lemma hexToRgb_null: "groups12 (replaceFirstHash hex) = [] \<Longrightarrow> hexToRgb hex = (Some (Num 0), Some (Num 0), Some (Num 0))"
  by (simp add: hexToRgb_def match12_def)

text \<open>
  Claim C10, amended. \<open>hexToRgb\<close> is a total function: none of its steps can throw. On
  \<open>#\<close> followed by six hexadecimal digits it returns the three channels \<open>R/255\<close>,
  \<open>G/255\<close>, \<open>B/255\<close>, where \<open>R\<close>, \<open>G\<close>, \<open>B\<close> are the values of the three pairs of digits,
  and each channel lies between 0 and 1. It returns black when the pattern finds no
  group at all, which is when the string left after removing the first \<open>#\<close> holds
  nothing but line terminators (the empty string and \<open>#\<close> among them).
\<close>

theorem hexToRgb_channels:
  "(isHexDigit a \<and> isHexDigit b \<and> isHexDigit c \<and> isHexDigit d \<and> isHexDigit e \<and> isHexDigit f
      \<longrightarrow> hexToRgb (CHR ''#'' # [a, b, c, d, e, f]) =
             (Some (Num (real (hexValue [a, b]) / 255)),
              Some (Num (real (hexValue [c, d]) / 255)),
              Some (Num (real (hexValue [e, f]) / 255)))
          \<and> hexValue [a, b] = 16 * the (hexDigitVal a) + the (hexDigitVal b)
          \<and> hexValue [c, d] = 16 * the (hexDigitVal c) + the (hexDigitVal d)
          \<and> hexValue [e, f] = 16 * the (hexDigitVal e) + the (hexDigitVal f)
          \<and> 0 \<le> real (hexValue [a, b]) / 255 \<and> real (hexValue [a, b]) / 255 \<le> 1
          \<and> 0 \<le> real (hexValue [c, d]) / 255 \<and> real (hexValue [c, d]) / 255 \<le> 1
          \<and> 0 \<le> real (hexValue [e, f]) / 255 \<and> real (hexValue [e, f]) / 255 \<le> 1)
   \<and> ((\<forall>ch \<in> set (replaceFirstHash hex). isLineTerminator ch)
      \<longrightarrow> hexToRgb hex = (Some (Num 0), Some (Num 0), Some (Num 0)))"
proof (intro conjI impI)
  assume h: "isHexDigit a \<and> isHexDigit b \<and> isHexDigit c \<and> isHexDigit d \<and> isHexDigit e \<and> isHexDigit f"
  then show "hexToRgb (CHR ''#'' # [a, b, c, d, e, f]) =
             (Some (Num (real (hexValue [a, b]) / 255)),
              Some (Num (real (hexValue [c, d]) / 255)),
              Some (Num (real (hexValue [e, f]) / 255)))"
    by (simp add: hexToRgb_six)
  from h show "real (hexValue [a, b]) / 255 \<le> 1"
    using hexValue_pair_bound [of a b] by simp
  from h show "real (hexValue [c, d]) / 255 \<le> 1"
    using hexValue_pair_bound [of c d] by simp
  from h show "real (hexValue [e, f]) / 255 \<le> 1"
    using hexValue_pair_bound [of e f] by simp
next
  assume "\<forall>ch \<in> set (replaceFirstHash hex). isLineTerminator ch"
  then show "hexToRgb hex = (Some (Num 0), Some (Num 0), Some (Num 0))"
    by (simp add: hexToRgb_null groups12_empty_iff)
qed (simp_all add: hexValue_pair)

theorem hexToRgb_channels_witness:
  "isHexDigit CHR ''1'' \<and> isHexDigit CHR ''e'' \<and> isHexDigit CHR ''4'' \<and> isHexDigit CHR ''0''
   \<and> isHexDigit CHR ''a'' \<and> isHexDigit CHR ''f''
   \<and> hexToRgb ''#1e40af'' = (Some (Num (30 / 255)), Some (Num (64 / 255)), Some (Num (175 / 255)))
   \<and> replaceFirstHash ''#'' = []
   \<and> hexToRgb ''#'' = (Some (Num 0), Some (Num 0), Some (Num 0))"
proof -
  have d: "isHexDigit CHR ''1'' \<and> isHexDigit CHR ''e'' \<and> isHexDigit CHR ''4''
           \<and> isHexDigit CHR ''0'' \<and> isHexDigit CHR ''a'' \<and> isHexDigit CHR ''f''"
    by (simp add: isHexDigit_def hexDigitVal_def)
  have e: "replaceFirstHash ''#'' = []"
    by simp
  from d e hexToRgb_channels [of "CHR ''1''" "CHR ''e''" "CHR ''4''" "CHR ''0''" "CHR ''a''"
      "CHR ''f''" "''#''"]
  show ?thesis
    by (simp add: hexDigitVal_def)
qed

text \<open>
  A string with a single digit after the \<open>#\<close> yields one group of one character and no
  group of two; the result is not black, and its green and blue channels are undefined.
\<close>

theorem hexToRgb_single_digit_counterexample:
  "groups12 (replaceFirstHash ''#1'') = [''1'']
   \<and> hexToRgb ''#1'' = (Some (Num (1 / 255)), None, None)
   \<and> hexToRgb ''#1'' \<noteq> (Some (Num 0), Some (Num 0), Some (Num 0))"
  by (simp add: hexToRgb_def match12_def parseInt16_def isWhiteSpace_def isLineTerminator_def
      isHexDigit_def hexDigitVal_def hexValue_def element_def Let_def)

section \<open>Rounding to double precision\<close>

text \<open>
  A positive number is rounded by exhibiting its binary exponent and the integer nearest
  to its scaled significand; the numbers of the scenario are rounded one by one.
\<close>

lemma toDouble_zero: "toDouble 0 = Num 0"
  by (simp add: toDouble_def)

lemma toDouble_pos:
  assumes "0 < x" and "exponentOf 2200 x = e0" and "max e0 (- 1022) = e"
    and "pow2 (e - 52) = q" and "roundHalfEven (x / q) = m" and "of_int m * q = r"
    and "r < pow2 1024"
  shows "toDouble x = Num r"
  using assms by (simp add: toDouble_def Let_def)

lemma fdiv_finite: "b \<noteq> 0 \<Longrightarrow> fdiv (Num a) (Num b) = toDouble (a / b)"
  by (simp add: fdiv_def)

lemma fmul_finite: "fmul (Num a) (Num b) = toDouble (a * b)"
  by (simp add: fmul_def)

lemma fsub_finite: "fsub (Num a) (Num b) = toDouble (a - b)"
  by (simp add: fsub_def jsub_def)

lemma fadd_finite: "fadd (Num a) (Num b) = toDouble (a + b)"
  by (simp add: fadd_def)

lemma double_612: "toDouble (612) = Num (612)"
  by (rule toDouble_pos [where ?e0.0 = "9" and e = "9" and q = "1 / 2 ^ 43" and m = "5383208929591296"])
    (simp_all add: exponentOf.simps pow2_def roundHalfEven_def Let_def)

lemma double_500: "toDouble (500) = Num (500)"
  by (rule toDouble_pos [where ?e0.0 = "8" and e = "8" and q = "1 / 2 ^ 44" and m = "8796093022208000"])
    (simp_all add: exponentOf.simps pow2_def roundHalfEven_def Let_def)

lemma double_792: "toDouble (792) = Num (792)"
  by (rule toDouble_pos [where ?e0.0 = "9" and e = "9" and q = "1 / 2 ^ 43" and m = "6966505673588736"])
    (simp_all add: exponentOf.simps pow2_def roundHalfEven_def Let_def)

lemma double_600: "toDouble (600) = Num (600)"
  by (rule toDouble_pos [where ?e0.0 = "9" and e = "9" and q = "1 / 2 ^ 43" and m = "5277655813324800"])
    (simp_all add: exponentOf.simps pow2_def roundHalfEven_def Let_def)

lemma double_100: "toDouble (100) = Num (100)"
  by (rule toDouble_pos [where ?e0.0 = "6" and e = "6" and q = "1 / 2 ^ 46" and m = "7036874417766400"])
    (simp_all add: exponentOf.simps pow2_def roundHalfEven_def Let_def)

lemma double_24: "toDouble (24) = Num (24)"
  by (rule toDouble_pos [where ?e0.0 = "4" and e = "4" and q = "1 / 2 ^ 48" and m = "6755399441055744"])
    (simp_all add: exponentOf.simps pow2_def roundHalfEven_def Let_def)

lemma double_scaleX: "toDouble (153 / 125) = Num (5512405943901487 / 4503599627370496)"
  by (rule toDouble_pos [where ?e0.0 = "0" and e = "0" and q = "1 / 2 ^ 52" and m = "5512405943901487"])
    (simp_all add: exponentOf.simps pow2_def roundHalfEven_def Let_def)

lemma double_scaledX: "toDouble (137810148597537175 / 1125899906842624) = Num (8613134287346073 / 70368744177664)"
  by (rule toDouble_pos [where ?e0.0 = "6" and e = "6" and q = "1 / 2 ^ 46" and m = "8613134287346073"])
    (simp_all add: exponentOf.simps pow2_def roundHalfEven_def Let_def)

lemma double_scaleY: "toDouble (33 / 25) = Num (5944751508129055 / 4503599627370496)"
  by (rule toDouble_pos [where ?e0.0 = "0" and e = "0" and q = "1 / 2 ^ 52" and m = "5944751508129055"])
    (simp_all add: exponentOf.simps pow2_def roundHalfEven_def Let_def)

lemma double_132: "toDouble (148618787703226375 / 1125899906842624) = Num (132)"
  by (rule toDouble_pos [where ?e0.0 = "7" and e = "7" and q = "1 / 2 ^ 45" and m = "4644337115725824"])
    (simp_all add: exponentOf.simps pow2_def roundHalfEven_def Let_def)

lemma double_660: "toDouble (660) = Num (660)"
  by (rule toDouble_pos [where ?e0.0 = "9" and e = "9" and q = "1 / 2 ^ 43" and m = "5805421394657280"])
    (simp_all add: exponentOf.simps pow2_def roundHalfEven_def Let_def)

lemma double_size: "toDouble (17834254524387165 / 562949953421312) = Num (4458563631096791 / 140737488355328)"
  by (rule toDouble_pos [where ?e0.0 = "4" and e = "4" and q = "1 / 2 ^ 48" and m = "8917127262193582"])
    (simp_all add: exponentOf.simps pow2_def roundHalfEven_def Let_def)

lemma double_y_part003: "toDouble (88428178683419689 / 140737488355328) = Num (5526761167713731 / 8796093022208)"
  by (rule toDouble_pos [where ?e0.0 = "9" and e = "9" and q = "1 / 2 ^ 43" and m = "5526761167713731"])
    (simp_all add: exponentOf.simps pow2_def roundHalfEven_def Let_def)

lemma double_12: "toDouble (12) = Num (12)"
  by (rule toDouble_pos [where ?e0.0 = "3" and e = "3" and q = "1 / 2 ^ 49" and m = "6755399441055744"])
    (simp_all add: exponentOf.simps pow2_def roundHalfEven_def Let_def)

lemma double_648: "toDouble (648) = Num (648)"
  by (rule toDouble_pos [where ?e0.0 = "9" and e = "9" and q = "1 / 2 ^ 43" and m = "5699868278390784"])
    (simp_all add: exponentOf.simps pow2_def roundHalfEven_def Let_def)

lemma double_758: "toDouble (758) = Num (758)"
  by (rule toDouble_pos [where ?e0.0 = "9" and e = "9" and q = "1 / 2 ^ 43" and m = "6667438510833664"])
    (simp_all add: exponentOf.simps pow2_def roundHalfEven_def Let_def)

lemma double_literal_x: "toDouble (12239999999999999 / 100000000000000) = Num (8613134287346073 / 70368744177664)"
  by (rule toDouble_pos [where ?e0.0 = "6" and e = "6" and q = "1 / 2 ^ 46" and m = "8613134287346073"])
    (simp_all add: exponentOf.simps pow2_def roundHalfEven_def Let_def)

lemma double_literal_x_claimed: "toDouble (612 / 5) = Num (4306567143673037 / 35184372088832)"
  by (rule toDouble_pos [where ?e0.0 = "6" and e = "6" and q = "1 / 2 ^ 46" and m = "8613134287346074"])
    (simp_all add: exponentOf.simps pow2_def roundHalfEven_def Let_def)

lemma double_literal_y: "toDouble (15708 / 25) = Num (5526761167713731 / 8796093022208)"
  by (rule toDouble_pos [where ?e0.0 = "9" and e = "9" and q = "1 / 2 ^ 43" and m = "5526761167713731"])
    (simp_all add: exponentOf.simps pow2_def roundHalfEven_def Let_def)

lemma double_literal_size: "toDouble (792 / 25) = Num (4458563631096791 / 140737488355328)"
  by (rule toDouble_pos [where ?e0.0 = "4" and e = "4" and q = "1 / 2 ^ 48" and m = "8917127262193582"])
    (simp_all add: exponentOf.simps pow2_def roundHalfEven_def Let_def)

lemmas scenario_doubles =
  double_612 double_500 double_792 double_600
  double_100 double_24 double_scaleX double_scaledX
  double_scaleY double_132 double_660 double_size
  double_y_part003 double_12 double_648 double_758
  double_literal_x double_literal_x_claimed double_literal_y double_literal_size

lemma scenario_scaledX:
  "sig_x s = 100 \<Longrightarrow> scaledX s 612 500 = Num (8613134287346073 / 70368744177664)"
  by (simp add: scaledX_def scaleX_def fdiv_finite fmul_finite scenario_doubles)

lemma scenario_scaledY:
  "sig_y s = 100 \<Longrightarrow> sig_fontSize s = 24 \<Longrightarrow>
   scaledY v s 792 600 =
     (case v of Editor \<Rightarrow> Num 758 | Part003 \<Rightarrow> Num (5526761167713731 / 8796093022208))"
  by (simp add: scaledY_def scaleY_def yOffset_def fdiv_finite fmul_finite fsub_finite fadd_finite
      scenario_doubles split: variant.splits)

lemma scenario_textSize:
  "sig_fontSize s = 24 \<Longrightarrow>
   textSize v s 792 600 =
     (case v of Editor \<Rightarrow> Num 24 | Part003 \<Rightarrow> Num (4458563631096791 / 140737488355328))"
  by (simp add: textSize_def scaleY_def fdiv_finite fmul_finite scenario_doubles
      split: variant.splits)

section \<open>The embedding loop\<close>

lemma embedSignature_pages_length:
  "embedSignature v w ow oh s pdfDoc = Inr pdfDoc1 \<Longrightarrow>
   length (pages pdfDoc1) = length (pages pdfDoc)"
  by (auto simp: embedSignature_def signatureFont_def drawText_def embedFont_def Let_def
      split: sum.splits option.splits if_splits prod.splits)

lemma embedSignatures_append:
  "embedSignatures v w ow oh (xs @ ys) pdfDoc =
     (case embedSignatures v w ow oh xs pdfDoc of
        Inl e \<Rightarrow> Inl e
      | Inr pdfDoc1 \<Rightarrow> embedSignatures v w ow oh ys pdfDoc1)"
  by (induction xs arbitrary: pdfDoc) (auto split: sum.splits)

lemma embedSignatures_pages_length:
  "embedSignatures v w ow oh sigs pdfDoc = Inr pdfDoc1 \<Longrightarrow>
   length (pages pdfDoc1) = length (pages pdfDoc)"
proof (induction sigs arbitrary: pdfDoc)
  case Nil
  then show ?case by simp
next
  case (Cons s sigs)
  then show ?case
    by (auto split: sum.splits dest: embedSignature_pages_length)
qed

lemma embedSignatures_member_fails:
  assumes "s \<in> set sigs"
    and "\<And>d. length (pages d) = length (pages pdfDoc) \<Longrightarrow> isl (embedSignature v w ow oh s d)"
  shows "isl (embedSignatures v w ow oh sigs pdfDoc)"
  using assms
proof (induction sigs arbitrary: pdfDoc)
  case Nil
  then show ?case by simp
next
  case (Cons a sigs)
  show ?case
  proof (cases "embedSignature v w ow oh a pdfDoc")
    case (Inl e)
    then show ?thesis by simp
  next
    case (Inr d1)
    then have len: "length (pages d1) = length (pages pdfDoc)"
      by (rule embedSignature_pages_length)
    from Inr Cons.prems(2) [of pdfDoc] have "a \<noteq> s" by auto
    with Cons.prems(1) have "s \<in> set sigs" by simp
    moreover have "\<And>d. length (pages d) = length (pages d1) \<Longrightarrow> isl (embedSignature v w ow oh s d)"
      using Cons.prems(2) len by simp
    ultimately have "isl (embedSignatures v w ow oh sigs d1)"
      by (rule Cons.IH)
    with Inr show ?thesis by simp
  qed
qed

lemma embedSignature_bad_page:
  "int (length (pages pdfDoc)) < sig_page s \<Longrightarrow>
   embedSignature v w ow oh s pdfDoc = Inl (PageOutOfRange (sig_page s - 1))"
  by (simp add: embedSignature_def getPage_def)

lemma handleSave_thrown:
  "signatures st \<noteq> [] \<Longrightarrow> signedPdf v w d st = Inl e \<Longrightarrow>
   handleSave v w d st = [ConsoleError e, Alert ''Failed to save signatures'']"
  by (simp add: handleSave_def)

text \<open>One signature whose page, font and colour are in order and whose drawing is accepted.\<close>

lemma embedSignature_drawn:
  assumes "getPage pdfDoc (sig_page s - 1) = Inr page"
    and "signatureFont w s pdfDoc = Inr (pdfFont, pdfDoc1)"
    and "hexToRgb (sig_color s) = (r, g, b)" and "rgb w r g b = Inr c"
    and "drawTextAccepts w
           \<lparr>op_text = sig_text s,
            op_x = scaledX s (page_width page) ow,
            op_y = scaledY v s (page_height page) oh,
            op_size = textSize v s (page_height page) oh,
            op_color = c, op_font = pdfFont\<rparr>"
  shows "embedSignature v w ow oh s pdfDoc =
           Inr (drawText pdfDoc1 (sig_page s - 1)
                  \<lparr>op_text = sig_text s,
                   op_x = scaledX s (page_width page) ow,
                   op_y = scaledY v s (page_height page) oh,
                   op_size = textSize v s (page_height page) oh,
                   op_color = c, op_font = pdfFont\<rparr>)"
  using assms by (simp add: embedSignature_def Let_def)

section \<open>Placement of the stamp\<close>

lemma janeDoe_color: "hexToRgb (sig_color janeDoe) =
    (Some (Num (30 / 255)), Some (Num (64 / 255)), Some (Num (175 / 255)))"
  by (simp add: janeDoe_def hexToRgb_def match12_def parseInt16_def isWhiteSpace_def
      isLineTerminator_def isHexDigit_def hexDigitVal_def hexValue_def element_def Let_def)

lemma rgb_finite:
  "colorAccepted w = (\<lambda>r g b. inUnitRange r \<and> inUnitRange g \<and> inUnitRange b) \<Longrightarrow>
   0 \<le> r \<Longrightarrow> r \<le> 1 \<Longrightarrow> 0 \<le> g \<Longrightarrow> g \<le> 1 \<Longrightarrow> 0 \<le> b \<Longrightarrow> b \<le> 1 \<Longrightarrow>
   rgb w (Some (Num r)) (Some (Num g)) (Some (Num b))
     = Inr (Some (Num r), Some (Num g), Some (Num b))"
  by (simp add: rgb_def inUnitRange_def)

lemma colorAccepted_examples:
  "colorAccepted okWorld = (\<lambda>r g b. inUnitRange r \<and> inUnitRange g \<and> inUnitRange b)"
  "colorAccepted collapsedWorld = (\<lambda>r g b. inUnitRange r \<and> inUnitRange g \<and> inUnitRange b)"
  "colorAccepted fontlessWorld = (\<lambda>r g b. inUnitRange r \<and> inUnitRange g \<and> inUnitRange b)"
  "colorAccepted fullStorageWorld = (\<lambda>r g b. inUnitRange r \<and> inUnitRange g \<and> inUnitRange b)"
  by (simp_all add: okWorld_def collapsedWorld_def fontlessWorld_def fullStorageWorld_def)

lemma drawTextAccepts_examples:
  "drawTextAccepts okWorld = numericPlacement"
  "drawTextAccepts collapsedWorld = numericPlacement"
  "drawTextAccepts fontlessWorld = numericPlacement"
  "drawTextAccepts fullStorageWorld = numericPlacement"
  by (simp_all add: okWorld_def collapsedWorld_def fontlessWorld_def fullStorageWorld_def)

lemma janeDoe_rgb:
  "colorAccepted w = (\<lambda>r g b. inUnitRange r \<and> inUnitRange g \<and> inUnitRange b) \<Longrightarrow>
   rgb w (Some (Num (30 / 255))) (Some (Num (64 / 255))) (Some (Num (175 / 255)))
     = Inr (Some (Num (30 / 255)), Some (Num (64 / 255)), Some (Num (175 / 255)))"
  by (rule rgb_finite) simp_all

lemma janeDoe_font:
  "signatureFont okWorld janeDoe pdfDoc =
     Inr (CustomFont greatVibesBytes, embedFont pdfDoc (CustomFont greatVibesBytes))"
  by (simp add: signatureFont_def FONT_FILE_MAP_def janeDoe_def okWorld_def)

lemma janeDoe_page:
  "getPage (embedFont threePages Helvetica) (sig_page janeDoe - 1) = Inr letterPage"
  by (simp add: getPage_def embedFont_def threePages_def janeDoe_def)

lemma janeDoe_fields:
  "sig_x janeDoe = 100" "sig_y janeDoe = 100" "sig_fontSize janeDoe = 24"
  "sig_text janeDoe = ''Jane Doe''" "sig_page janeDoe = 1"
  by (simp_all add: janeDoe_def)

lemma letterPage_size: "page_width letterPage = 612" "page_height letterPage = 792"
  by (simp_all add: letterPage_def)

lemma stamped_drawn:
  "c = (Some (Num (30 / 255)), Some (Num (64 / 255)), Some (Num (175 / 255))) \<Longrightarrow>
   drawText (embedFont (embedFont threePages Helvetica) (CustomFont greatVibesBytes)) 0
     \<lparr>op_text = ''Jane Doe'', op_x = px, op_y = py, op_size = sz, op_color = c,
      op_font = CustomFont greatVibesBytes\<rparr>
   = stamped px py sz"
  by (simp add: drawText_def embedFont_def threePages_def stamped_def stampOp_def letterPage_def)

lemma embed_janeDoe:
  "embedSignature v okWorld 500 600 janeDoe (embedFont threePages Helvetica) =
     Inr (stamped (Num (8613134287346073 / 70368744177664))
            (case v of Editor \<Rightarrow> Num 758 | Part003 \<Rightarrow> Num (5526761167713731 / 8796093022208))
            (case v of Editor \<Rightarrow> Num 24 | Part003 \<Rightarrow> Num (4458563631096791 / 140737488355328)))"
proof -
  have c: "rgb okWorld (Some (Num (30 / 255))) (Some (Num (64 / 255))) (Some (Num (175 / 255)))
     = Inr (Some (Num (30 / 255)), Some (Num (64 / 255)), Some (Num (175 / 255)))"
    by (rule janeDoe_rgb) (rule colorAccepted_examples)
  have "embedSignature v okWorld 500 600 janeDoe (embedFont threePages Helvetica) =
           Inr (drawText (embedFont (embedFont threePages Helvetica) (CustomFont greatVibesBytes))
                  (sig_page janeDoe - 1)
                  \<lparr>op_text = sig_text janeDoe,
                   op_x = scaledX janeDoe (page_width letterPage) 500,
                   op_y = scaledY v janeDoe (page_height letterPage) 600,
                   op_size = textSize v janeDoe (page_height letterPage) 600,
                   op_color = (Some (Num (30 / 255)), Some (Num (64 / 255)), Some (Num (175 / 255))),
                   op_font = CustomFont greatVibesBytes\<rparr>)"
    using janeDoe_page janeDoe_font janeDoe_color c
    by (rule embedSignature_drawn)
      (simp add: drawTextAccepts_examples numericPlacement_def letterPage_size janeDoe_fields
        scenario_scaledX scenario_scaledY scenario_textSize split: variant.splits)
  then show ?thesis
    by (simp add: letterPage_size janeDoe_fields scenario_scaledX scenario_scaledY
        scenario_textSize stamped_drawn)
qed

lemma okWorld_source:
  "fetch okWorld (original_url contract) = Some sourceBytes"
  "PDFDocument_load okWorld sourceBytes = Some threePages"
  "overlaySize okWorld = (500, 600)"
  "storage_upload okWorld path blob = None"
  "storage_getPublicUrl okWorld path = ''https://files.example/'' @ path"
  "documents_update okWorld i url stat = None"
  by (simp_all add: okWorld_def contract_def overlaySize_def)

lemma save_janeDoe:
  "handleSave v okWorld contract (editing [janeDoe]) =
     [Upload ''u1/signed-d1.pdf''
        (stamped (Num (8613134287346073 / 70368744177664))
            (case v of Editor \<Rightarrow> Num 758 | Part003 \<Rightarrow> Num (5526761167713731 / 8796093022208))
            (case v of Editor \<Rightarrow> Num 24 | Part003 \<Rightarrow> Num (4458563631096791 / 140737488355328))),
      UpdateRecord ''d1'' ''https://files.example/u1/signed-d1.pdf'' signed,
      Alert ''Document signed and uploaded successfully!'',
      OnSave]"
proof -
  have "signedPdf v okWorld contract (editing [janeDoe]) =
          embedSignature v okWorld 500 600 janeDoe (embedFont threePages Helvetica)"
    by (simp add: signedPdf_def okWorld_source editing_def split: sum.splits)
  then have sp: "signedPdf v okWorld contract (editing [janeDoe]) =
     Inr (stamped (Num (8613134287346073 / 70368744177664))
            (case v of Editor \<Rightarrow> Num 758 | Part003 \<Rightarrow> Num (5526761167713731 / 8796093022208))
            (case v of Editor \<Rightarrow> Num 24 | Part003 \<Rightarrow> Num (4458563631096791 / 140737488355328)))"
    by (simp add: embed_janeDoe)
  show ?thesis
    unfolding handleSave_def sp
    by (simp add: editing_def contract_def okWorld_source Let_def)
qed

text \<open>
  Claim C1, amended. A signature whose page exists, whose font is resolved, whose colour
  is accepted and whose drawing operation the library accepts is drawn by both copies of
  \<open>handleSave\<close> at \<open>x = sig.x * (pageWidth / overlayWidth)\<close>, each operation rounded to the
  nearest double. The vertical position is
  \<open>pageHeight - sig.y * scaleY - sig.fontSize * scaleY\<close> in part_003, which also scales
  the text size, and \<open>pageHeight - sig.y * scaleY - sig.fontSize / 2 + 110\<close> in
  SignatureEditor.tsx, which leaves the text size as it is; \<open>scaleY\<close> is
  \<open>pageHeight / overlayHeight\<close>. In the scenario part_003 places the stamp at
  (122.39999999999999, 628.32) with size 31.68 and SignatureEditor.tsx at
  (122.39999999999999, 758) with size 24: the quotient 612 / 500 is rounded before it is
  multiplied by 100, and the product is the double just below 122.4.
\<close>

theorem stamp_placement:
  assumes "getPage pdfDoc (sig_page s - 1) = Inr page"
    and "signatureFont w s pdfDoc = Inr (pdfFont, pdfDoc1)"
    and "hexToRgb (sig_color s) = (r, g, b)" and "rgb w r g b = Inr c"
    and "operation =
           \<lparr>op_text = sig_text s,
            op_x = fmul (toDouble (sig_x s))
                     (fdiv (toDouble (page_width page)) (toDouble overlayWidth)),
            op_y = (case v of
                      Part003 \<Rightarrow>
                        fsub (fsub (toDouble (page_height page))
                                (fmul (toDouble (sig_y s))
                                   (fdiv (toDouble (page_height page)) (toDouble overlayHeight))))
                          (fmul (toDouble (sig_fontSize s))
                             (fdiv (toDouble (page_height page)) (toDouble overlayHeight)))
                    | Editor \<Rightarrow>
                        fadd (fsub (fsub (toDouble (page_height page))
                                      (fmul (toDouble (sig_y s))
                                         (fdiv (toDouble (page_height page))
                                            (toDouble overlayHeight))))
                                (fdiv (toDouble (sig_fontSize s)) (Num 2)))
                          (Num 110)),
            op_size = (case v of
                         Part003 \<Rightarrow>
                           fmul (toDouble (sig_fontSize s))
                             (fdiv (toDouble (page_height page)) (toDouble overlayHeight))
                       | Editor \<Rightarrow> toDouble (sig_fontSize s)),
            op_color = c,
            op_font = pdfFont\<rparr>"
    and "drawTextAccepts w operation"
  shows "embedSignature v w overlayWidth overlayHeight s pdfDoc =
           Inr (drawText pdfDoc1 (sig_page s - 1) operation)
         \<and> embedSignature Part003 okWorld 500 600 janeDoe (embedFont threePages Helvetica)
             = Inr (stamped (toDouble 122.39999999999999) (toDouble 628.32) (toDouble 31.68))
         \<and> embedSignature Editor okWorld 500 600 janeDoe (embedFont threePages Helvetica)
             = Inr (stamped (toDouble 122.39999999999999) (Num 758) (Num 24))"
proof (intro conjI)
  have "operation =
          \<lparr>op_text = sig_text s,
           op_x = scaledX s (page_width page) overlayWidth,
           op_y = scaledY v s (page_height page) overlayHeight,
           op_size = textSize v s (page_height page) overlayHeight,
           op_color = c, op_font = pdfFont\<rparr>"
    using assms(5)
    by (simp add: scaledX_def scaledY_def textSize_def scaleX_def scaleY_def yOffset_def
        split: variant.splits)
  with assms(1-4,6) show "embedSignature v w overlayWidth overlayHeight s pdfDoc =
           Inr (drawText pdfDoc1 (sig_page s - 1) operation)"
    by (simp add: embedSignature_drawn)
qed (simp_all add: embed_janeDoe scenario_doubles)

theorem stamp_placement_witness:
  "getPage (embedFont threePages Helvetica) (sig_page janeDoe - 1) = Inr letterPage
   \<and> signatureFont okWorld janeDoe (embedFont threePages Helvetica)
       = Inr (CustomFont greatVibesBytes,
              embedFont (embedFont threePages Helvetica) (CustomFont greatVibesBytes))
   \<and> hexToRgb (sig_color janeDoe) = (Some (Num (30 / 255)), Some (Num (64 / 255)), Some (Num (175 / 255)))
   \<and> rgb okWorld (Some (Num (30 / 255))) (Some (Num (64 / 255))) (Some (Num (175 / 255)))
       = Inr (Some (Num (30 / 255)), Some (Num (64 / 255)), Some (Num (175 / 255)))
   \<and> stampOp (toDouble 122.39999999999999) (toDouble 628.32) (toDouble 31.68) =
       \<lparr>op_text = sig_text janeDoe,
        op_x = fmul (toDouble (sig_x janeDoe)) (fdiv (toDouble (page_width letterPage)) (toDouble 500)),
        op_y = fsub (fsub (toDouble (page_height letterPage))
                       (fmul (toDouble (sig_y janeDoe))
                          (fdiv (toDouble (page_height letterPage)) (toDouble 600))))
                 (fmul (toDouble (sig_fontSize janeDoe))
                    (fdiv (toDouble (page_height letterPage)) (toDouble 600))),
        op_size = fmul (toDouble (sig_fontSize janeDoe))
                    (fdiv (toDouble (page_height letterPage)) (toDouble 600)),
        op_color = (Some (Num (30 / 255)), Some (Num (64 / 255)), Some (Num (175 / 255))),
        op_font = CustomFont greatVibesBytes\<rparr>
   \<and> drawTextAccepts okWorld
         (stampOp (toDouble 122.39999999999999) (toDouble 628.32) (toDouble 31.68))
   \<and> embedSignature Part003 okWorld 500 600 janeDoe (embedFont threePages Helvetica)
       = Inr (drawText (embedFont (embedFont threePages Helvetica) (CustomFont greatVibesBytes))
                (sig_page janeDoe - 1)
                (stampOp (toDouble 122.39999999999999) (toDouble 628.32) (toDouble 31.68)))"
proof -
  have c: "rgb okWorld (Some (Num (30 / 255))) (Some (Num (64 / 255))) (Some (Num (175 / 255)))
       = Inr (Some (Num (30 / 255)), Some (Num (64 / 255)), Some (Num (175 / 255)))"
    by (rule janeDoe_rgb) (rule colorAccepted_examples)
  have op: "stampOp (toDouble 122.39999999999999) (toDouble 628.32) (toDouble 31.68) =
       \<lparr>op_text = sig_text janeDoe,
        op_x = fmul (toDouble (sig_x janeDoe)) (fdiv (toDouble (page_width letterPage)) (toDouble 500)),
        op_y = (case Part003 of
                  Part003 \<Rightarrow>
                    fsub (fsub (toDouble (page_height letterPage))
                            (fmul (toDouble (sig_y janeDoe))
                               (fdiv (toDouble (page_height letterPage)) (toDouble 600))))
                      (fmul (toDouble (sig_fontSize janeDoe))
                         (fdiv (toDouble (page_height letterPage)) (toDouble 600)))
                | Editor \<Rightarrow>
                    fadd (fsub (fsub (toDouble (page_height letterPage))
                                  (fmul (toDouble (sig_y janeDoe))
                                     (fdiv (toDouble (page_height letterPage)) (toDouble 600))))
                            (fdiv (toDouble (sig_fontSize janeDoe)) (Num 2)))
                      (Num 110)),
        op_size = (case Part003 of
                     Part003 \<Rightarrow>
                       fmul (toDouble (sig_fontSize janeDoe))
                         (fdiv (toDouble (page_height letterPage)) (toDouble 600))
                   | Editor \<Rightarrow> toDouble (sig_fontSize janeDoe)),
        op_color = (Some (Num (30 / 255)), Some (Num (64 / 255)), Some (Num (175 / 255))),
        op_font = CustomFont greatVibesBytes\<rparr>"
    by (simp add: stampOp_def janeDoe_fields letterPage_size
        fdiv_finite fmul_finite fsub_finite scenario_doubles)
  have acc: "drawTextAccepts okWorld
         (stampOp (toDouble 122.39999999999999) (toDouble 628.32) (toDouble 31.68))"
    by (simp add: drawTextAccepts_examples numericPlacement_def stampOp_def scenario_doubles)
  from stamp_placement [OF janeDoe_page janeDoe_font janeDoe_color c op acc]
  have "embedSignature Part003 okWorld 500 600 janeDoe (embedFont threePages Helvetica)
       = Inr (drawText (embedFont (embedFont threePages Helvetica) (CustomFont greatVibesBytes))
                (sig_page janeDoe - 1)
                (stampOp (toDouble 122.39999999999999) (toDouble 628.32) (toDouble 31.68)))"
    by simp
  moreover from op have "stampOp (toDouble 122.39999999999999) (toDouble 628.32) (toDouble 31.68) =
       \<lparr>op_text = sig_text janeDoe,
        op_x = fmul (toDouble (sig_x janeDoe)) (fdiv (toDouble (page_width letterPage)) (toDouble 500)),
        op_y = fsub (fsub (toDouble (page_height letterPage))
                       (fmul (toDouble (sig_y janeDoe))
                          (fdiv (toDouble (page_height letterPage)) (toDouble 600))))
                 (fmul (toDouble (sig_fontSize janeDoe))
                    (fdiv (toDouble (page_height letterPage)) (toDouble 600))),
        op_size = fmul (toDouble (sig_fontSize janeDoe))
                    (fdiv (toDouble (page_height letterPage)) (toDouble 600)),
        op_color = (Some (Num (30 / 255)), Some (Num (64 / 255)), Some (Num (175 / 255))),
        op_font = CustomFont greatVibesBytes\<rparr>"
    by simp
  ultimately show ?thesis
    using janeDoe_page janeDoe_font janeDoe_color c acc by blast
qed

text \<open>
  Saving the scenario uploads a document stamped at (122.39999999999999, 628.32) with
  part_003 and at (122.39999999999999, 758) with SignatureEditor.tsx: neither is
  (122.4, 628.32).
\<close>

theorem stamp_not_at_claimed_position_counterexample:
  "handleSave Part003 okWorld contract (editing [janeDoe]) =
     [Upload ''u1/signed-d1.pdf''
        (stamped (toDouble 122.39999999999999) (toDouble 628.32) (toDouble 31.68)),
      UpdateRecord ''d1'' ''https://files.example/u1/signed-d1.pdf'' signed,
      Alert ''Document signed and uploaded successfully!'',
      OnSave]
   \<and> toDouble 122.39999999999999 \<noteq> toDouble 122.4
   \<and> handleSave Editor okWorld contract (editing [janeDoe]) =
     [Upload ''u1/signed-d1.pdf'' (stamped (toDouble 122.39999999999999) (Num 758) (Num 24)),
      UpdateRecord ''d1'' ''https://files.example/u1/signed-d1.pdf'' signed,
      Alert ''Document signed and uploaded successfully!'',
      OnSave]
   \<and> Num 758 \<noteq> toDouble 628.32"
  by (simp add: save_janeDoe scenario_doubles)

text \<open>
  Claim C4. The two copies of \<open>handleSave\<close> are not equivalent. SignatureEditor.tsx
  computes the vertical position \<open>pageHeight - sig.y * scaleY - sig.fontSize / 2 + 110\<close>
  and draws at the unscaled font size, while part_003 computes
  \<open>pageHeight - sig.y * scaleY - sig.fontSize * scaleY\<close> and draws at the font size
  multiplied by \<open>scaleY\<close>, every operation in double arithmetic. In the scenario the two
  vertical positions are 758 and 628.32, and the two saves upload different documents.
\<close>

theorem vertical_placements_differ:
  "scaledY Editor s pageHeight overlayHeight
     = fadd (fsub (fsub (toDouble pageHeight)
                     (fmul (toDouble (sig_y s))
                        (fdiv (toDouble pageHeight) (toDouble overlayHeight))))
               (fdiv (toDouble (sig_fontSize s)) (Num 2)))
         (Num 110)
   \<and> scaledY Part003 s pageHeight overlayHeight
     = fsub (fsub (toDouble pageHeight)
               (fmul (toDouble (sig_y s)) (fdiv (toDouble pageHeight) (toDouble overlayHeight))))
         (fmul (toDouble (sig_fontSize s)) (fdiv (toDouble pageHeight) (toDouble overlayHeight)))
   \<and> textSize Editor s pageHeight overlayHeight = toDouble (sig_fontSize s)
   \<and> textSize Part003 s pageHeight overlayHeight
     = fmul (toDouble (sig_fontSize s)) (fdiv (toDouble pageHeight) (toDouble overlayHeight))
   \<and> scaledY Editor janeDoe 792 600 = Num 758
   \<and> scaledY Part003 janeDoe 792 600 = toDouble 628.32
   \<and> scaledY Editor janeDoe 792 600 \<noteq> scaledY Part003 janeDoe 792 600
   \<and> handleSave Editor okWorld contract (editing [janeDoe])
       \<noteq> handleSave Part003 okWorld contract (editing [janeDoe])"
proof (intro conjI)
  show "handleSave Editor okWorld contract (editing [janeDoe])
       \<noteq> handleSave Part003 okWorld contract (editing [janeDoe])"
    by (simp add: save_janeDoe stamped_def stampOp_def letterPage_def)
  show "scaledY Editor s pageHeight overlayHeight
     = fadd (fsub (fsub (toDouble pageHeight)
                     (fmul (toDouble (sig_y s))
                        (fdiv (toDouble pageHeight) (toDouble overlayHeight))))
               (fdiv (toDouble (sig_fontSize s)) (Num 2)))
         (Num 110)"
    by (simp add: scaledY_def scaleY_def yOffset_def)
  show "scaledY Part003 s pageHeight overlayHeight
     = fsub (fsub (toDouble pageHeight)
               (fmul (toDouble (sig_y s)) (fdiv (toDouble pageHeight) (toDouble overlayHeight))))
         (fmul (toDouble (sig_fontSize s)) (fdiv (toDouble pageHeight) (toDouble overlayHeight)))"
    by (simp add: scaledY_def scaleY_def)
  show "textSize Editor s pageHeight overlayHeight = toDouble (sig_fontSize s)"
    by (simp add: textSize_def)
  show "textSize Part003 s pageHeight overlayHeight
     = fmul (toDouble (sig_fontSize s)) (fdiv (toDouble pageHeight) (toDouble overlayHeight))"
    by (simp add: textSize_def scaleY_def)
qed (simp_all add: scenario_scaledY janeDoe_fields scenario_doubles)

theorem vertical_placements_differ_witness:
  "scaledY Editor plainStamp 792 600 = Num 758
   \<and> scaledY Part003 plainStamp 792 600 = toDouble 628.32"
proof -
  have "sig_y plainStamp = 100" "sig_fontSize plainStamp = 24"
    by (simp_all add: plainStamp_def janeDoe_def)
  with vertical_placements_differ [of plainStamp 792 600] show ?thesis
    by (simp add: fdiv_finite fmul_finite fsub_finite fadd_finite scenario_doubles)
qed

section \<open>Saving without signatures\<close>

text \<open>
  Claim C6, amended. With an empty list of signatures \<open>handleSave\<close> refuses to run: it
  alerts "Please add at least one signature" and does nothing else. No document is
  fetched, produced or uploaded, and the record is not updated.
\<close>

theorem empty_list_is_refused:
  "signatures st = [] \<Longrightarrow>
   handleSave v w d st = [Alert ''Please add at least one signature'']"
  by (simp add: handleSave_def)

theorem empty_list_is_refused_witness:
  "signatures (editing []) = []
   \<and> handleSave Part003 okWorld contract (editing []) = [Alert ''Please add at least one signature'']"
proof -
  have e: "signatures (editing []) = []" by (simp add: editing_def)
  from e empty_list_is_refused [OF e, of Part003 okWorld contract] show ?thesis by simp
qed

text \<open>
  With no signature, in a world where every request would succeed, the save produces no
  output at all.
\<close>

theorem empty_list_counterexample:
  "handleSave Editor okWorld contract (editing []) = [Alert ''Please add at least one signature'']"
  by (simp add: handleSave_def editing_def)

section \<open>A page that does not exist\<close>

text \<open>
  Claim C3, amended. When the source document has been fetched and parsed and the page
  number of some signature exceeds its page count, \<open>handleSave\<close> (either copy) fails: it
  logs the error that was thrown, alerts "Failed to save signatures" and does nothing
  else, so nothing is uploaded, the record is not updated and the source stays as it was.
  The error is the page range error raised for that signature, unless one of the
  signatures before it in the list has already made the loop throw; then it is that
  earlier error.
\<close>

theorem page_out_of_range_aborts_save:
  assumes "fetch w (original_url d) = Some existingPdfBytes"
    and "PDFDocument_load w existingPdfBytes = Some pdfDoc"
    and "signatures st = earlier @ s # later"
    and "int (length (pages pdfDoc)) < sig_page s"
  shows "handleSave v w d st =
           [ConsoleError
              (case embedSignatures v w (fst (overlaySize w)) (snd (overlaySize w)) earlier
                      (embedFont pdfDoc Helvetica) of
                 Inl e \<Rightarrow> e
               | Inr pdfDoc1 \<Rightarrow> PageOutOfRange (sig_page s - 1)),
            Alert ''Failed to save signatures'']"
proof -
  let ?ow = "fst (overlaySize w)" and ?oh = "snd (overlaySize w)"
  let ?start = "embedFont pdfDoc Helvetica"
  have len0: "length (pages ?start) = length (pages pdfDoc)"
    by (simp add: embedFont_def)
  have "signedPdf v w d st =
          Inl (case embedSignatures v w ?ow ?oh earlier ?start of
                 Inl e \<Rightarrow> e | Inr pdfDoc1 \<Rightarrow> PageOutOfRange (sig_page s - 1))"
  proof (cases "embedSignatures v w ?ow ?oh earlier ?start")
    case (Inl e)
    with assms(1-3) show ?thesis
      by (simp add: signedPdf_def embedSignatures_append)
  next
    case (Inr pdfDoc1)
    then have "length (pages pdfDoc1) = length (pages pdfDoc)"
      using embedSignatures_pages_length len0 by metis
    with assms(4) have "embedSignature v w ?ow ?oh s pdfDoc1 = Inl (PageOutOfRange (sig_page s - 1))"
      by (simp add: embedSignature_bad_page)
    with Inr assms(1-3) show ?thesis
      by (simp add: signedPdf_def embedSignatures_append)
  qed
  moreover from assms(3) have "signatures st \<noteq> []" by simp
  ultimately show ?thesis
    by (simp add: handleSave_thrown)
qed

lemma okWorld_overlay: "overlaySize okWorld = (500, 600)"
  by (simp add: overlaySize_def okWorld_def)

lemma pageFive_page: "sig_page pageFive = 5"
  by (simp add: pageFive_def)

theorem page_out_of_range_aborts_save_witness:
  "fetch okWorld (original_url contract) = Some sourceBytes
   \<and> PDFDocument_load okWorld sourceBytes = Some threePages
   \<and> signatures (editing [janeDoe, pageFive]) = [janeDoe] @ pageFive # []
   \<and> int (length (pages threePages)) < sig_page pageFive
   \<and> handleSave Editor okWorld contract (editing [janeDoe, pageFive]) =
        [ConsoleError (PageOutOfRange 4), Alert ''Failed to save signatures'']"
proof -
  have f: "fetch okWorld (original_url contract) = Some sourceBytes"
    by (simp add: okWorld_def contract_def)
  have l: "PDFDocument_load okWorld sourceBytes = Some threePages"
    by (simp add: okWorld_def)
  have s: "signatures (editing [janeDoe, pageFive]) = [janeDoe] @ pageFive # []"
    by (simp add: editing_def)
  have p: "int (length (pages threePages)) < sig_page pageFive"
    by (simp add: threePages_def pageFive_page)
  from page_out_of_range_aborts_save [OF f l s p, of Editor]
  have "handleSave Editor okWorld contract (editing [janeDoe, pageFive]) =
        [ConsoleError (PageOutOfRange 4), Alert ''Failed to save signatures'']"
    by (simp add: okWorld_overlay embed_janeDoe pageFive_page)
  with f l s p show ?thesis by simp
qed

lemma fontlessWorld_source:
  "fetch fontlessWorld (original_url contract) = Some sourceBytes"
  "PDFDocument_load fontlessWorld sourceBytes = Some threePages"
  "overlaySize fontlessWorld = (500, 600)"
  by (simp_all add: fontlessWorld_def okWorld_def contract_def overlaySize_def)

lemma janeDoe_without_font:
  "pages pdfDoc \<noteq> [] \<Longrightarrow>
   embedSignature v fontlessWorld ow oh janeDoe pdfDoc
     = Inl (FontFetchFailed ''/fonts/GreatVibes-Regular.ttf'')"
  by (cases "pages pdfDoc")
    (simp_all add: embedSignature_def getPage_def signatureFont_def FONT_FILE_MAP_def janeDoe_def
      fontlessWorld_def okWorld_def Let_def split: prod.splits)

text \<open>
  The second signature is on page 5 of a document of three pages, but the first one needs
  a font file that cannot be fetched: the save fails with the error of the font, not
  with the page range error.
\<close>

theorem earlier_failure_hides_page_error_counterexample:
  "int (length (pages threePages)) < sig_page pageFive
   \<and> handleSave Editor fontlessWorld contract (editing [janeDoe, pageFive]) =
        [ConsoleError (FontFetchFailed ''/fonts/GreatVibes-Regular.ttf''),
         Alert ''Failed to save signatures'']"
proof
  show "int (length (pages threePages)) < sig_page pageFive"
    by (simp add: threePages_def pageFive_page)
  have "signedPdf Editor fontlessWorld contract (editing [janeDoe, pageFive])
          = Inl (FontFetchFailed ''/fonts/GreatVibes-Regular.ttf'')"
    unfolding signedPdf_def
    by (simp add: fontlessWorld_source editing_def)
      (simp add: janeDoe_without_font embedFont_def threePages_def)
  then show "handleSave Editor fontlessWorld contract (editing [janeDoe, pageFive]) =
        [ConsoleError (FontFetchFailed ''/fonts/GreatVibes-Regular.ttf''),
         Alert ''Failed to save signatures'']"
    by (simp add: handleSave_thrown editing_def)
qed

section \<open>A font that cannot be loaded\<close>

lemma embedSignature_font_failure:
  assumes "FONT_FILE_MAP (sig_font s) = Some fontUrl"
    and "fetch w fontUrl = None \<or> (\<exists>fontBytes. fetch w fontUrl = Some fontBytes \<and> \<not> fontParses w fontBytes)"
  shows "isl (embedSignature v w ow oh s pdfDoc)"
  using assms
  by (auto simp: embedSignature_def signatureFont_def Let_def split: sum.splits prod.splits)

text \<open>
  Claim C5, amended. When the font file mapped to the font of some signature cannot be
  fetched, or its bytes cannot be embedded, the whole save aborts: \<open>handleSave\<close> logs the
  error, alerts "Failed to save signatures" and does nothing else. No signature ends up
  embedded in an output, nothing is uploaded, and there is no list of warnings.
\<close>

theorem font_failure_aborts_save:
  assumes "s \<in> set (signatures st)"
    and "FONT_FILE_MAP (sig_font s) = Some fontUrl"
    and "fetch w fontUrl = None
         \<or> (\<exists>fontBytes. fetch w fontUrl = Some fontBytes \<and> \<not> fontParses w fontBytes)"
  shows "\<exists>e. handleSave v w d st = [ConsoleError e, Alert ''Failed to save signatures'']"
proof -
  have "isl (signedPdf v w d st)"
  proof (cases "fetch w (original_url d)")
    case None
    then show ?thesis by (simp add: signedPdf_def)
  next
    case (Some existingPdfBytes)
    show ?thesis
    proof (cases "PDFDocument_load w existingPdfBytes")
      case None
      with Some show ?thesis by (simp add: signedPdf_def)
    next
      case (Some pdfDoc)
      have "isl (embedSignatures v w (fst (overlaySize w)) (snd (overlaySize w)) (signatures st)
                   (embedFont pdfDoc Helvetica))"
        using assms(1) embedSignature_font_failure [OF assms(2,3)]
        by (rule embedSignatures_member_fails)
      with Some \<open>fetch w (original_url d) = Some existingPdfBytes\<close> show ?thesis
        by (simp add: signedPdf_def)
    qed
  qed
  then obtain e where "signedPdf v w d st = Inl e"
    by (auto simp: isl_def)
  moreover from assms(1) have "signatures st \<noteq> []" by auto
  ultimately show ?thesis
    by (simp add: handleSave_thrown)
qed

lemma plainStamp_fields:
  "sig_x plainStamp = 100" "sig_y plainStamp = 100" "sig_fontSize plainStamp = 24"
  "sig_page plainStamp = 1" "sig_color plainStamp = sig_color janeDoe"
  "FONT_FILE_MAP (sig_font plainStamp) = None"
  by (simp_all add: plainStamp_def janeDoe_def FONT_FILE_MAP_def)

lemma embed_plainStamp:
  "\<exists>pdfDoc1. embedSignature v fontlessWorld 500 600 plainStamp (embedFont threePages Helvetica)
      = Inr pdfDoc1 \<and> pages pdfDoc1 \<noteq> []"
proof -
  have c: "rgb fontlessWorld (Some (Num (30 / 255))) (Some (Num (64 / 255))) (Some (Num (175 / 255)))
     = Inr (Some (Num (30 / 255)), Some (Num (64 / 255)), Some (Num (175 / 255)))"
    by (rule janeDoe_rgb) (rule colorAccepted_examples)
  have p: "getPage (embedFont threePages Helvetica) (sig_page plainStamp - 1) = Inr letterPage"
    by (simp add: getPage_def embedFont_def threePages_def plainStamp_fields)
  have f: "signatureFont fontlessWorld plainStamp (embedFont threePages Helvetica)
             = Inr (Helvetica, embedFont threePages Helvetica)"
    by (simp add: signatureFont_def plainStamp_fields)
  have h: "hexToRgb (sig_color plainStamp)
             = (Some (Num (30 / 255)), Some (Num (64 / 255)), Some (Num (175 / 255)))"
    by (simp add: plainStamp_fields janeDoe_color)
  have "embedSignature v fontlessWorld 500 600 plainStamp (embedFont threePages Helvetica) =
           Inr (drawText (embedFont threePages Helvetica) (sig_page plainStamp - 1)
                  \<lparr>op_text = sig_text plainStamp,
                   op_x = scaledX plainStamp (page_width letterPage) 500,
                   op_y = scaledY v plainStamp (page_height letterPage) 600,
                   op_size = textSize v plainStamp (page_height letterPage) 600,
                   op_color = (Some (Num (30 / 255)), Some (Num (64 / 255)), Some (Num (175 / 255))),
                   op_font = Helvetica\<rparr>)"
    using p f h c
    by (rule embedSignature_drawn)
      (simp add: drawTextAccepts_examples numericPlacement_def letterPage_size plainStamp_fields
        scenario_scaledX scenario_scaledY scenario_textSize split: variant.splits)
  then show ?thesis
    by (simp add: drawText_def embedFont_def threePages_def plainStamp_fields)
qed

lemma save_without_fonts:
  "handleSave v fontlessWorld contract (editing [plainStamp, janeDoe]) =
     [ConsoleError (FontFetchFailed ''/fonts/GreatVibes-Regular.ttf''),
      Alert ''Failed to save signatures'']"
proof -
  from embed_plainStamp obtain pdfDoc1
    where plain: "embedSignature v fontlessWorld 500 600 plainStamp (embedFont threePages Helvetica)
                    = Inr pdfDoc1"
      and ne: "pages pdfDoc1 \<noteq> []"
    by blast
  have "signedPdf v fontlessWorld contract (editing [plainStamp, janeDoe])
          = Inl (FontFetchFailed ''/fonts/GreatVibes-Regular.ttf'')"
    unfolding signedPdf_def
    by (simp add: fontlessWorld_source editing_def plain janeDoe_without_font [OF ne])
  then show ?thesis
    by (simp add: handleSave_thrown editing_def)
qed

theorem font_failure_aborts_save_witness:
  "janeDoe \<in> set (signatures (editing [plainStamp, janeDoe]))
   \<and> FONT_FILE_MAP (sig_font janeDoe) = Some ''/fonts/GreatVibes-Regular.ttf''
   \<and> fetch fontlessWorld ''/fonts/GreatVibes-Regular.ttf'' = None
   \<and> handleSave Editor fontlessWorld contract (editing [plainStamp, janeDoe]) =
        [ConsoleError (FontFetchFailed ''/fonts/GreatVibes-Regular.ttf''),
         Alert ''Failed to save signatures'']"
proof -
  have m: "janeDoe \<in> set (signatures (editing [plainStamp, janeDoe]))"
    by (simp add: editing_def)
  have f: "FONT_FILE_MAP (sig_font janeDoe) = Some ''/fonts/GreatVibes-Regular.ttf''"
    by (simp add: FONT_FILE_MAP_def janeDoe_def)
  have n: "fetch fontlessWorld ''/fonts/GreatVibes-Regular.ttf'' = None"
    by (simp add: fontlessWorld_def okWorld_def)
  from font_failure_aborts_save [OF m f disjI1 [OF n], of Editor contract]
  obtain e where "handleSave Editor fontlessWorld contract (editing [plainStamp, janeDoe])
                    = [ConsoleError e, Alert ''Failed to save signatures'']" ..
  with m f n show ?thesis
    by (simp add: save_without_fonts)
qed

text \<open>
  Two signatures, the first in a font without a file, the second in a font whose file
  cannot be fetched: the save aborts, and the first signature is not embedded either.
\<close>

theorem font_failure_counterexample:
  "handleSave Part003 fontlessWorld contract (editing [plainStamp, janeDoe]) =
     [ConsoleError (FontFetchFailed ''/fonts/GreatVibes-Regular.ttf''),
      Alert ''Failed to save signatures'']"
  by (rule save_without_fonts)

section \<open>An overlay without extent\<close>

lemma fdiv_by_zero:
  "fdiv (Num a) (Num 0) = (if a = 0 then NaN else if 0 < a then PosInf else NegInf)"
  by (simp add: fdiv_def)

lemma fmul_infinite:
  "fmul (Num a) PosInf = (if a = 0 then NaN else if 0 < a then PosInf else NegInf)"
  by (simp add: fmul_def inf_times_def)

lemma scaledX_zero_overlay:
  assumes "toDouble pageWidth = Num pw" and "0 < pw" and "toDouble (sig_x s) = Num x"
  shows "scaledX s pageWidth 0 = (if x = 0 then NaN else if 0 < x then PosInf else NegInf)"
  using assms by (simp add: scaledX_def scaleX_def toDouble_zero fdiv_by_zero fmul_infinite)

lemma collapsedWorld_source:
  "fetch collapsedWorld (original_url contract) = Some sourceBytes"
  "PDFDocument_load collapsedWorld sourceBytes = Some threePages"
  "overlaySize collapsedWorld = (0, 600)"
  "storage_upload collapsedWorld path blob = None"
  "storage_getPublicUrl collapsedWorld path = ''https://files.example/'' @ path"
  "documents_update collapsedWorld i url stat = None"
  by (simp_all add: collapsedWorld_def okWorld_def contract_def overlaySize_def)

lemma leftEdge_fields:
  "sig_x leftEdge = 0" "sig_y leftEdge = 100" "sig_fontSize leftEdge = 24"
  "sig_text leftEdge = ''Jane Doe''" "sig_page leftEdge = 1"
  "sig_color leftEdge = sig_color janeDoe" "sig_font leftEdge = sig_font janeDoe"
  by (simp_all add: leftEdge_def janeDoe_def)

lemma collapsedWorld_font:
  "sig_font s = sig_font janeDoe \<Longrightarrow>
   signatureFont collapsedWorld s pdfDoc =
     Inr (CustomFont greatVibesBytes, embedFont pdfDoc (CustomFont greatVibesBytes))"
  by (simp add: signatureFont_def FONT_FILE_MAP_def janeDoe_def collapsedWorld_def okWorld_def)

lemma collapsed_scaledX:
  "scaledX janeDoe 612 0 = PosInf" "scaledX leftEdge 612 0 = NaN"
  by (simp_all add: scaledX_zero_overlay [where pw = 612 and x = 100]
      scaledX_zero_overlay [where pw = 612 and x = 0]
      janeDoe_fields leftEdge_fields scenario_doubles toDouble_zero)

lemma embed_collapsed:
  "embedSignature v collapsedWorld 0 600 janeDoe (embedFont threePages Helvetica) =
     Inr (stamped PosInf
            (case v of Editor \<Rightarrow> Num 758 | Part003 \<Rightarrow> Num (5526761167713731 / 8796093022208))
            (case v of Editor \<Rightarrow> Num 24 | Part003 \<Rightarrow> Num (4458563631096791 / 140737488355328)))"
proof -
  have c: "rgb collapsedWorld (Some (Num (30 / 255))) (Some (Num (64 / 255))) (Some (Num (175 / 255)))
     = Inr (Some (Num (30 / 255)), Some (Num (64 / 255)), Some (Num (175 / 255)))"
    by (rule janeDoe_rgb) (rule colorAccepted_examples)
  have "embedSignature v collapsedWorld 0 600 janeDoe (embedFont threePages Helvetica) =
           Inr (drawText (embedFont (embedFont threePages Helvetica) (CustomFont greatVibesBytes))
                  (sig_page janeDoe - 1)
                  \<lparr>op_text = sig_text janeDoe,
                   op_x = scaledX janeDoe (page_width letterPage) 0,
                   op_y = scaledY v janeDoe (page_height letterPage) 600,
                   op_size = textSize v janeDoe (page_height letterPage) 600,
                   op_color = (Some (Num (30 / 255)), Some (Num (64 / 255)), Some (Num (175 / 255))),
                   op_font = CustomFont greatVibesBytes\<rparr>)"
    using janeDoe_page collapsedWorld_font [OF refl] janeDoe_color c
    by (rule embedSignature_drawn)
      (simp add: drawTextAccepts_examples numericPlacement_def letterPage_size janeDoe_fields
        collapsed_scaledX scenario_scaledY scenario_textSize split: variant.splits)
  then show ?thesis
    by (simp add: letterPage_size janeDoe_fields collapsed_scaledX scenario_scaledY
        scenario_textSize stamped_drawn)
qed

lemma embedSignature_rejected:
  assumes "getPage pdfDoc (sig_page s - 1) = Inr page"
    and "signatureFont w s pdfDoc = Inr (pdfFont, pdfDoc1)"
    and "hexToRgb (sig_color s) = (r, g, b)" and "rgb w r g b = Inr c"
    and "\<not> drawTextAccepts w
           \<lparr>op_text = sig_text s,
            op_x = scaledX s (page_width page) ow,
            op_y = scaledY v s (page_height page) oh,
            op_size = textSize v s (page_height page) oh,
            op_color = c, op_font = pdfFont\<rparr>"
  shows "embedSignature v w ow oh s pdfDoc = Inl DrawTextRejected"
  using assms by (simp add: embedSignature_def Let_def)

lemma embed_leftEdge:
  "embedSignature v collapsedWorld 0 600 leftEdge (embedFont threePages Helvetica)
     = Inl DrawTextRejected"
proof -
  have c: "rgb collapsedWorld (Some (Num (30 / 255))) (Some (Num (64 / 255))) (Some (Num (175 / 255)))
     = Inr (Some (Num (30 / 255)), Some (Num (64 / 255)), Some (Num (175 / 255)))"
    by (rule janeDoe_rgb) (rule colorAccepted_examples)
  have p: "getPage (embedFont threePages Helvetica) (sig_page leftEdge - 1) = Inr letterPage"
    by (simp add: getPage_def embedFont_def threePages_def leftEdge_fields)
  have h: "hexToRgb (sig_color leftEdge)
             = (Some (Num (30 / 255)), Some (Num (64 / 255)), Some (Num (175 / 255)))"
    by (simp add: leftEdge_fields janeDoe_color)
  show ?thesis
    using p collapsedWorld_font [OF leftEdge_fields(7)] h c
    by (rule embedSignature_rejected)
      (simp add: drawTextAccepts_examples numericPlacement_def letterPage_size collapsed_scaledX)
qed

lemma save_collapsed:
  "handleSave v collapsedWorld contract (editing [janeDoe]) =
       [Upload ''u1/signed-d1.pdf''
          (stamped PosInf
            (case v of Editor \<Rightarrow> Num 758 | Part003 \<Rightarrow> Num (5526761167713731 / 8796093022208))
            (case v of Editor \<Rightarrow> Num 24 | Part003 \<Rightarrow> Num (4458563631096791 / 140737488355328))),
        UpdateRecord ''d1'' ''https://files.example/u1/signed-d1.pdf'' signed,
        Alert ''Document signed and uploaded successfully!'',
        OnSave]"
proof -
  have "signedPdf v collapsedWorld contract (editing [janeDoe]) =
          embedSignature v collapsedWorld 0 600 janeDoe (embedFont threePages Helvetica)"
    by (simp add: signedPdf_def collapsedWorld_source editing_def split: sum.splits)
  then have sp: "signedPdf v collapsedWorld contract (editing [janeDoe]) =
          Inr (stamped PosInf
            (case v of Editor \<Rightarrow> Num 758 | Part003 \<Rightarrow> Num (5526761167713731 / 8796093022208))
            (case v of Editor \<Rightarrow> Num 24 | Part003 \<Rightarrow> Num (4458563631096791 / 140737488355328)))"
    by (simp add: embed_collapsed)
  show ?thesis
    unfolding handleSave_def sp
    by (simp add: editing_def contract_def collapsedWorld_source Let_def)
qed

lemma save_leftEdge:
  "handleSave v collapsedWorld contract (editing [leftEdge]) =
     [ConsoleError DrawTextRejected, Alert ''Failed to save signatures'']"
proof -
  have "signedPdf v collapsedWorld contract (editing [leftEdge]) = Inl DrawTextRejected"
    by (simp add: signedPdf_def collapsedWorld_source editing_def embed_leftEdge)
  then show ?thesis
    by (simp add: handleSave_thrown editing_def)
qed

text \<open>
  Claim C2, amended. No check for a degenerate overlay exists, and no error of that kind.
  On a page of positive width and height, an overlay width of zero makes \<open>scaleX\<close>
  +Infinity, and an overlay height of zero makes \<open>scaleY\<close> +Infinity. With an overlay of
  width zero the embedding of a signature whose page, font and colour are accepted goes
  on to the drawing operation with \<open>x\<close> = NaN when \<open>sig.x\<close> is 0, +Infinity when it is
  positive and -Infinity when it is negative; the text is drawn if the library accepts
  that operation, and otherwise the library's rejection is thrown. With a library that
  rejects NaN only, the scenario in an overlay of width zero is saved with the stamp's
  \<open>x\<close> at +Infinity (the document is uploaded and the record updated), and the same
  signature at \<open>sig.x = 0\<close> makes the save fail with the library's rejection and the
  alert "Failed to save signatures".
\<close>

theorem zero_overlay_is_not_rejected:
  assumes "getPage pdfDoc (sig_page s - 1) = Inr page"
    and "signatureFont w s pdfDoc = Inr (pdfFont, pdfDoc1)"
    and "hexToRgb (sig_color s) = (r, g, b)" and "rgb w r g b = Inr c"
    and "toDouble (page_width page) = Num pageWidth" and "0 < pageWidth"
    and "toDouble (page_height page) = Num pageHeight" and "0 < pageHeight"
    and "toDouble (sig_x s) = Num x"
    and "operation =
           \<lparr>op_text = sig_text s,
            op_x = (if x = 0 then NaN else if 0 < x then PosInf else NegInf),
            op_y = scaledY v s (page_height page) overlayHeight,
            op_size = textSize v s (page_height page) overlayHeight,
            op_color = c,
            op_font = pdfFont\<rparr>"
  shows "scaleX (page_width page) 0 = PosInf
         \<and> scaleY (page_height page) 0 = PosInf
         \<and> embedSignature v w 0 overlayHeight s pdfDoc =
             (if drawTextAccepts w operation
              then Inr (drawText pdfDoc1 (sig_page s - 1) operation)
              else Inl DrawTextRejected)
         \<and> handleSave Part003 collapsedWorld contract (editing [janeDoe]) =
             [Upload ''u1/signed-d1.pdf'' (stamped PosInf (toDouble 628.32) (toDouble 31.68)),
              UpdateRecord ''d1'' ''https://files.example/u1/signed-d1.pdf'' signed,
              Alert ''Document signed and uploaded successfully!'',
              OnSave]
         \<and> handleSave Part003 collapsedWorld contract (editing [leftEdge]) =
             [ConsoleError DrawTextRejected, Alert ''Failed to save signatures'']"
proof (intro conjI)
  show "scaleX (page_width page) 0 = PosInf"
    using assms(5,6) by (simp add: scaleX_def toDouble_zero fdiv_by_zero)
  show "scaleY (page_height page) 0 = PosInf"
    using assms(7,8) by (simp add: scaleY_def toDouble_zero fdiv_by_zero)
  have "scaledX s (page_width page) 0 = (if x = 0 then NaN else if 0 < x then PosInf else NegInf)"
    using assms(5,6,9) by (rule scaledX_zero_overlay)
  with assms(1-4,10) show "embedSignature v w 0 overlayHeight s pdfDoc =
             (if drawTextAccepts w operation
              then Inr (drawText pdfDoc1 (sig_page s - 1) operation)
              else Inl DrawTextRejected)"
    by (simp add: embedSignature_def Let_def)
qed (simp_all add: save_collapsed save_leftEdge scenario_doubles)

theorem zero_overlay_is_not_rejected_witness:
  "getPage (embedFont threePages Helvetica) (sig_page janeDoe - 1) = Inr letterPage
   \<and> signatureFont collapsedWorld janeDoe (embedFont threePages Helvetica)
       = Inr (CustomFont greatVibesBytes,
              embedFont (embedFont threePages Helvetica) (CustomFont greatVibesBytes))
   \<and> hexToRgb (sig_color janeDoe) = (Some (Num (30 / 255)), Some (Num (64 / 255)), Some (Num (175 / 255)))
   \<and> rgb collapsedWorld (Some (Num (30 / 255))) (Some (Num (64 / 255))) (Some (Num (175 / 255)))
       = Inr (Some (Num (30 / 255)), Some (Num (64 / 255)), Some (Num (175 / 255)))
   \<and> toDouble (page_width letterPage) = Num 612 \<and> (0::real) < 612
   \<and> toDouble (page_height letterPage) = Num 792 \<and> (0::real) < 792
   \<and> toDouble (sig_x janeDoe) = Num 100
   \<and> drawTextAccepts collapsedWorld (stampOp PosInf (Num 758) (Num 24))
   \<and> scaleX (page_width letterPage) 0 = PosInf
   \<and> embedSignature Editor collapsedWorld 0 600 janeDoe (embedFont threePages Helvetica)
       = Inr (drawText (embedFont (embedFont threePages Helvetica) (CustomFont greatVibesBytes))
                (sig_page janeDoe - 1) (stampOp PosInf (Num 758) (Num 24)))"
proof -
  have c: "rgb collapsedWorld (Some (Num (30 / 255))) (Some (Num (64 / 255))) (Some (Num (175 / 255)))
       = Inr (Some (Num (30 / 255)), Some (Num (64 / 255)), Some (Num (175 / 255)))"
    by (rule janeDoe_rgb) (rule colorAccepted_examples)
  have tw: "toDouble (page_width letterPage) = Num 612"
    and th: "toDouble (page_height letterPage) = Num 792"
    and tx: "toDouble (sig_x janeDoe) = Num 100"
    by (simp_all add: letterPage_size janeDoe_fields scenario_doubles)
  have pw: "(0::real) < 612" and ph: "(0::real) < 792"
    by simp_all
  have acc: "drawTextAccepts collapsedWorld (stampOp PosInf (Num 758) (Num 24))"
    by (simp add: drawTextAccepts_examples numericPlacement_def stampOp_def)
  have f: "signatureFont collapsedWorld janeDoe (embedFont threePages Helvetica)
       = Inr (CustomFont greatVibesBytes,
              embedFont (embedFont threePages Helvetica) (CustomFont greatVibesBytes))"
    by (rule collapsedWorld_font) (rule refl)
  from zero_overlay_is_not_rejected
    [OF janeDoe_page f janeDoe_color c tw pw th ph tx refl, of Editor 600]
  have "scaleX (page_width letterPage) 0 = PosInf
    \<and> embedSignature Editor collapsedWorld 0 600 janeDoe (embedFont threePages Helvetica)
       = Inr (drawText (embedFont (embedFont threePages Helvetica) (CustomFont greatVibesBytes))
                (sig_page janeDoe - 1) (stampOp PosInf (Num 758) (Num 24)))"
    using acc
    by (simp add: stampOp_def janeDoe_fields letterPage_size scenario_scaledY scenario_textSize)
  with janeDoe_page f janeDoe_color c tw pw th ph tx acc
  show ?thesis
    by blast
qed

text \<open>
  The overlay container has width zero; the save of SignatureEditor.tsx raises nothing
  and uploads its output.
\<close>

theorem zero_width_overlay_counterexample:
  "rect_width (the (containerRect collapsedWorld)) = 0
   \<and> handleSave Editor collapsedWorld contract (editing [janeDoe]) =
       [Upload ''u1/signed-d1.pdf'' (stamped PosInf (Num 758) (Num 24)),
        UpdateRecord ''d1'' ''https://files.example/u1/signed-d1.pdf'' signed,
        Alert ''Document signed and uploaded successfully!'',
        OnSave]"
proof
  show "rect_width (the (containerRect collapsedWorld)) = 0"
    by (simp add: collapsedWorld_def)
qed (simp add: save_collapsed)

section \<open>Upload before update\<close>

text \<open>
  Claim C9. In every run of \<open>handleSave\<close> (either copy, any world, any state) either no
  update of the record is emitted, or exactly one is: it carries the status \<open>signed\<close>
  together with the public URL of the uploaded file, and it comes directly after the
  upload of the output bytes, which the storage accepted. If the storage rejects the
  upload, no update of the record is emitted.
\<close>

theorem record_update_follows_upload:
  "(filter isUpdateRecord (handleSave v w d st) = []
     \<or> (\<exists>pdfBytes rest.
          handleSave v w d st =
            Upload (user_id d @ ''/'' @ ''signed-'' @ doc_id d @ ''.pdf'') pdfBytes
            # UpdateRecord (doc_id d)
                (storage_getPublicUrl w (user_id d @ ''/'' @ ''signed-'' @ doc_id d @ ''.pdf''))
                signed
            # rest
          \<and> storage_upload w (user_id d @ ''/'' @ ''signed-'' @ doc_id d @ ''.pdf'') pdfBytes = None
          \<and> filter isUpdateRecord rest = []))
   \<and> (Upload path blob \<in> set (handleSave v w d st) \<and> storage_upload w path blob \<noteq> None
        \<longrightarrow> filter isUpdateRecord (handleSave v w d st) = [])"
  by (auto simp: handleSave_def Let_def split: sum.splits option.splits)

lemma fullStorageWorld_source:
  "fetch fullStorageWorld (original_url contract) = Some sourceBytes"
  "PDFDocument_load fullStorageWorld sourceBytes = Some threePages"
  "overlaySize fullStorageWorld = (500, 600)"
  "storage_upload fullStorageWorld path blob = Some ''quota exceeded''"
  by (simp_all add: fullStorageWorld_def okWorld_def contract_def overlaySize_def)

lemma embed_fullStorage:
  "embedSignature v fullStorageWorld ow oh s pdfDoc = embedSignature v okWorld ow oh s pdfDoc"
proof -
  have eq: "signatureFont fullStorageWorld s pdfDoc = signatureFont okWorld s pdfDoc"
    by (simp add: signatureFont_def fullStorageWorld_def split: option.splits)
  have col: "rgb fullStorageWorld = rgb okWorld"
    by (simp add: rgb_def fullStorageWorld_def fun_eq_iff)
  have acc: "drawTextAccepts fullStorageWorld = drawTextAccepts okWorld"
    by (simp add: fullStorageWorld_def)
  show ?thesis
    unfolding embedSignature_def eq col acc by (rule refl)
qed

lemma save_fullStorage:
  "handleSave v fullStorageWorld contract (editing [janeDoe]) =
     [Upload ''u1/signed-d1.pdf''
        (stamped (Num (8613134287346073 / 70368744177664))
            (case v of Editor \<Rightarrow> Num 758 | Part003 \<Rightarrow> Num (5526761167713731 / 8796093022208))
            (case v of Editor \<Rightarrow> Num 24 | Part003 \<Rightarrow> Num (4458563631096791 / 140737488355328))),
      Alert ''Failed to upload signed PDF: quota exceeded'']"
proof -
  have "signedPdf v fullStorageWorld contract (editing [janeDoe]) =
          embedSignature v okWorld 500 600 janeDoe (embedFont threePages Helvetica)"
    by (simp add: signedPdf_def fullStorageWorld_source editing_def embed_fullStorage
        split: sum.splits)
  then have sp: "signedPdf v fullStorageWorld contract (editing [janeDoe]) =
          Inr (stamped (Num (8613134287346073 / 70368744177664))
            (case v of Editor \<Rightarrow> Num 758 | Part003 \<Rightarrow> Num (5526761167713731 / 8796093022208))
            (case v of Editor \<Rightarrow> Num 24 | Part003 \<Rightarrow> Num (4458563631096791 / 140737488355328)))"
    by (simp add: embed_janeDoe)
  show ?thesis
    unfolding handleSave_def sp
    by (simp add: editing_def contract_def fullStorageWorld_source Let_def)
qed

theorem record_update_follows_upload_witness:
  "Upload ''u1/signed-d1.pdf'' (stamped (toDouble 122.39999999999999) (Num 758) (Num 24))
      \<in> set (handleSave Editor fullStorageWorld contract (editing [janeDoe]))
   \<and> storage_upload fullStorageWorld ''u1/signed-d1.pdf''
         (stamped (toDouble 122.39999999999999) (Num 758) (Num 24)) \<noteq> None
   \<and> filter isUpdateRecord (handleSave Editor fullStorageWorld contract (editing [janeDoe])) = []
   \<and> filter isUpdateRecord (handleSave Editor okWorld contract (editing [janeDoe]))
       = [UpdateRecord ''d1'' ''https://files.example/u1/signed-d1.pdf'' signed]"
proof -
  have u: "Upload ''u1/signed-d1.pdf'' (stamped (toDouble 122.39999999999999) (Num 758) (Num 24))
      \<in> set (handleSave Editor fullStorageWorld contract (editing [janeDoe]))"
    by (simp add: save_fullStorage scenario_doubles)
  have f: "storage_upload fullStorageWorld ''u1/signed-d1.pdf''
             (stamped (toDouble 122.39999999999999) (Num 758) (Num 24)) \<noteq> None"
    by (simp add: fullStorageWorld_source)
  have ok: "filter isUpdateRecord (handleSave Editor okWorld contract (editing [janeDoe]))
       = [UpdateRecord ''d1'' ''https://files.example/u1/signed-d1.pdf'' signed]"
    by (simp add: save_janeDoe)
  from record_update_follows_upload [of Editor fullStorageWorld contract "editing [janeDoe]"
      "''u1/signed-d1.pdf''" "stamped (toDouble 122.39999999999999) (Num 758) (Num 24)"] u f
  have "filter isUpdateRecord (handleSave Editor fullStorageWorld contract (editing [janeDoe])) = []"
    by blast
  with u f ok show ?thesis by blast
qed

end
